theory Spec2Isabelle
  imports Complex_Main
begin

section \<open>Numbers and three.js vectors\<close>

text \<open>
  The scene code computes on JavaScript numbers. They are modelled as \<^typ>\<open>real\<close>:
  every result below is about exact arithmetic, and rounding of IEEE doubles is outside
  the model. \<open>vec3\<close> is \<open>THREE.Vector3\<close>; the operations are the ones of three.js that
  the engineer code calls.
\<close>

record vec3 =
  vx :: real
  vy :: real
  vz :: real

definition Vector3 :: "real \<Rightarrow> real \<Rightarrow> real \<Rightarrow> vec3" where
  "Vector3 a b c = \<lparr>vx = a, vy = b, vz = c\<rparr>"

definition subVectors :: "vec3 \<Rightarrow> vec3 \<Rightarrow> vec3" where
  "subVectors a b = Vector3 (vx a - vx b) (vy a - vy b) (vz a - vz b)"

definition length_v3 :: "vec3 \<Rightarrow> real" where
  "length_v3 v = sqrt (vx v * vx v + vy v * vy v + vz v * vz v)"

text \<open>\<open>Vector3.normalize\<close> is \<open>divideScalar(length() || 1)\<close>.\<close>

definition normalize_v3 :: "vec3 \<Rightarrow> vec3" where
  "normalize_v3 v =
     (let l = (if length_v3 v = 0 then 1 else length_v3 v)
      in Vector3 (vx v / l) (vy v / l) (vz v / l))"

definition addScaledVector :: "vec3 \<Rightarrow> vec3 \<Rightarrow> real \<Rightarrow> vec3" where
  "addScaledVector p v s = Vector3 (vx p + vx v * s) (vy p + vy v * s) (vz p + vz v * s)"

text \<open>\<open>new THREE.Vector2(a, b).length()\<close>.\<close>

definition length_v2 :: "real \<Rightarrow> real \<Rightarrow> real" where
  "length_v2 a b = sqrt (a * a + b * b)"

text \<open>\<open>Math.atan2(y, x)\<close>, used only for the yaw of the model.\<close>

definition atan2 :: "real \<Rightarrow> real \<Rightarrow> real" where
  "atan2 b a =
     (if 0 < a then arctan (b / a)
      else if a < 0 \<and> 0 \<le> b then arctan (b / a) + pi
      else if a < 0 then arctan (b / a) - pi
      else if 0 < b then pi / 2
      else if b < 0 then - (pi / 2)
      else 0)"

section \<open>Data model\<close>

text \<open>
  An entry of \<open>collisionObjects\<close>: the object's world position and \<open>userData.radius\<close>
  (which may be absent).
\<close>

record obstacle =
  worldPosition :: vec3
  radius :: "real option"

text \<open>The expression \<open>obj.userData.radius || 1\<close>: a missing or zero radius counts as 1.\<close>

definition collisionRadius :: "obstacle \<Rightarrow> real" where
  "collisionRadius obj =
     (case radius obj of None \<Rightarrow> 1 | Some r \<Rightarrow> if r = 0 then 1 else r)"

text \<open>
  A \<open>THREE.AnimationAction\<close>, as far as \<open>setState\<close> drives it: whether it is playing,
  and its effective time scale and weight.
\<close>

record action =
  playing :: bool
  timeScale :: real
  weight :: real

definition stop :: "action \<Rightarrow> action" where
  "stop a = a\<lparr>playing := False\<rparr>"

text \<open>\<open>reset\<close> rewinds the clip and re-enables the action; none of the three fields moves.\<close>

definition reset :: "action \<Rightarrow> action" where
  "reset a = a"

definition setEffectiveTimeScale :: "action \<Rightarrow> real \<Rightarrow> action" where
  "setEffectiveTimeScale a s = a\<lparr>timeScale := s\<rparr>"

definition setEffectiveWeight :: "action \<Rightarrow> real \<Rightarrow> action" where
  "setEffectiveWeight a s = a\<lparr>weight := s\<rparr>"

definition play :: "action \<Rightarrow> action" where
  "play a = a\<lparr>playing := True\<rparr>"

text \<open>The loaded FBX model of an engineer: \<open>model.position\<close> and \<open>model.rotation.y\<close>.\<close>

record model3d =
  position :: vec3
  rotationY :: real

text \<open>
  The closures that the scene passes to \<open>moveTo\<close> as \<open>onArrival\<close>. The only one is the
  arrow function of \<open>handleAIResponse\<close>, which closes over the equipment id and name.
\<close>

datatype callback = FixArrival string string

text \<open>
  The fields of class \<open>Engineer\<close> that the simulation reads or writes. \<open>mixer\<close> is the
  time of the \<open>AnimationMixer\<close> (absent until the model has loaded); \<open>animations\<close> maps
  a clip name to its action once the clip has loaded. \<open>arrivalLog\<close> is a history
  variable, not a field of the class: the continuations this engineer has invoked so
  far, oldest first.
\<close>

record engineer =
  model :: "model3d option"
  mixer :: "real option"
  animations :: "string \<rightharpoonup> action"
  currentAnimation :: "string option"
  currentState :: string
  targetPosition :: "vec3 option"
  speed :: real
  dialogue :: "string option"
  dialogueElement :: "string option"
  isSpeaking :: bool
  isWorking :: bool
  onArrivalCallback :: "callback option"
  arrivalLog :: "callback list"

text \<open>The two global arrays that \<open>checkCollision\<close> scans.\<close>

record world =
  collisionObjects :: "obstacle list"
  engineers :: "engineer list"

section \<open>setState\<close>

definition stateAnimationMap :: "string \<rightharpoonup> string" where
  "stateAnimationMap =
     [''idle'' \<mapsto> ''standing'', ''walking'' \<mapsto> ''walking'',
      ''talking'' \<mapsto> ''talking'', ''working'' \<mapsto> ''working'']"

definition setState :: "engineer \<Rightarrow> string \<Rightarrow> engineer" where
  "setState this newState =
     (if currentState this = newState then this
      else case stateAnimationMap newState of
        None \<Rightarrow> this
      | Some animName \<Rightarrow>
          (case animations this animName of
             None \<Rightarrow> this
           | Some a \<Rightarrow>
               (let stopped = (\<lambda>k. map_option stop (animations this k));
                    newAction = play (setEffectiveWeight (setEffectiveTimeScale (reset (stop a)) 1) 1)
                in this\<lparr>animations := stopped(animName \<mapsto> newAction),
                        currentState := newState,
                        currentAnimation := Some animName\<rparr>)))"

section \<open>checkCollision\<close>

definition engineerRadius :: real where
  "engineerRadius = 1 / 2"

text \<open>The loop over \<open>collisionObjects\<close>, returning at the first hit.\<close>

fun equipmentLoop :: "vec3 \<Rightarrow> obstacle list \<Rightarrow> bool" where
  "equipmentLoop newPosition [] = False"
| "equipmentLoop newPosition (obj # objs) =
     (let objPos = worldPosition obj;
          distance = length_v2 (vx newPosition - vx objPos) (vz newPosition - vz objPos);
          minDistance = engineerRadius + collisionRadius obj
      in if distance < minDistance then True else equipmentLoop newPosition objs)"

text \<open>
  The loop over \<open>engineers\<close>. \<open>j\<close> is the index of the head of the list in the global
  array and \<open>i\<close> the index of \<open>this\<close>: the test \<open>otherEngineer === this\<close> is \<open>j = i\<close>.
\<close>

fun engineersLoop :: "nat \<Rightarrow> vec3 \<Rightarrow> nat \<Rightarrow> engineer list \<Rightarrow> bool" where
  "engineersLoop i newPosition j [] = False"
| "engineersLoop i newPosition j (otherEngineer # rest) =
     (if j = i \<or> model otherEngineer = None then engineersLoop i newPosition (Suc j) rest
      else
        (let otherPos = position (the (model otherEngineer));
             distance = length_v2 (vx newPosition - vx otherPos) (vz newPosition - vz otherPos)
         in if distance < engineerRadius * 2 then True
            else engineersLoop i newPosition (Suc j) rest))"

text \<open>\<open>checkCollision\<close> of the scene file with engineer avoidance (src/unnamed/part_000).\<close>

definition checkCollision :: "world \<Rightarrow> nat \<Rightarrow> vec3 \<Rightarrow> bool" where
  "checkCollision w i newPosition =
     (if equipmentLoop newPosition (collisionObjects w) then True
      else if engineersLoop i newPosition 0 (engineers w) then True
      else False)"

text \<open>\<open>checkCollision\<close> of src/main.js: equipment only.\<close>

definition checkCollision_main :: "world \<Rightarrow> nat \<Rightarrow> vec3 \<Rightarrow> bool" where
  "checkCollision_main w i newPosition =
     (if equipmentLoop newPosition (collisionObjects w) then True else False)"

section \<open>work, speak and the arrival continuation\<close>

text \<open>
  \<open>work\<close> and \<open>speak\<close> also register a \<open>setTimeout\<close> callback with the host, to run
  \<open>duration\<close> milliseconds later. Nothing of it runs inside a frame; the bodies of those
  callbacks are \<open>workTimeout\<close> and \<open>speakTimeout\<close>. \<open>showDialogue\<close> replaces the
  speech bubble, kept here as its text.
\<close>

definition showDialogue :: "engineer \<Rightarrow> string \<Rightarrow> real \<Rightarrow> engineer" where
  "showDialogue this text duration = this\<lparr>dialogueElement := Some text\<rparr>"

definition speak :: "engineer \<Rightarrow> string \<Rightarrow> real \<Rightarrow> engineer" where
  "speak this text duration =
     showDialogue (this\<lparr>dialogue := Some text, isSpeaking := True\<rparr>) text duration"

definition speakTimeout :: "engineer \<Rightarrow> engineer" where
  "speakTimeout this = this\<lparr>dialogue := None, isSpeaking := False\<rparr>"

definition work :: "engineer \<Rightarrow> real \<Rightarrow> engineer" where
  "work this duration = this\<lparr>isWorking := True\<rparr>"

definition workTimeout :: "engineer \<Rightarrow> engineer" where
  "workTimeout this = this\<lparr>isWorking := False\<rparr>"

text \<open>
  Calling the continuation: \<open>engineer.work(8000)\<close>, then
  \<open>engineer.speak(`Working on the ${equipmentName} now...`, 3000)\<close>, on the engineer
  that \<open>moveTo\<close> was called on.
\<close>

fun runCallback :: "callback \<Rightarrow> engineer \<Rightarrow> engineer" where
  "runCallback (FixArrival equipmentId equipmentName) this =
     speak (work this 8000) (''Working on the '' @ equipmentName @ '' now...'') 3000"

section \<open>moveTo\<close>

text \<open>\<open>random\<close> is the value that \<open>Math.random()\<close> returns when it is called.\<close>

definition moveTo :: "world \<Rightarrow> nat \<Rightarrow> engineer \<Rightarrow> vec3 \<Rightarrow> callback option \<Rightarrow> real \<Rightarrow> engineer" where
  "moveTo w i this targetPos onArrival random =
     (let targetPos' =
        (if checkCollision w i targetPos then
           (let angle = random * pi * 2;
                offset = 3
            in Vector3 (vx targetPos + cos angle * offset) 0 (vz targetPos + sin angle * offset))
         else targetPos)
      in this\<lparr>targetPosition := Some (targetPos'\<lparr>vy := 0\<rparr>),
              onArrivalCallback := onArrival\<rparr>)"


section \<open>update\<close>

text \<open>\<open>mixer.update(deltaTime)\<close>, when the mixer exists.\<close>

definition mixerUpdate :: "real \<Rightarrow> engineer \<Rightarrow> engineer" where
  "mixerUpdate deltaTime this = this\<lparr>mixer := map_option (\<lambda>t. t + deltaTime) (mixer this)\<rparr>"

text \<open>The yaw after the smooth rotation towards the (normalised) direction.\<close>

definition rotateTowards :: "vec3 \<Rightarrow> real \<Rightarrow> real" where
  "rotateTowards direction currentAngle =
     (let targetAngle = atan2 (vx direction) (vz direction);
          angleDiff = targetAngle - currentAngle;
          shortestAngle = atan2 (sin angleDiff) (cos angleDiff)
      in currentAngle + shortestAngle * (1 / 10))"

text \<open>The vector from the model to the target, with \<open>direction.y = 0\<close>.\<close>

definition directionTo :: "vec3 \<Rightarrow> vec3 \<Rightarrow> vec3" where
  "directionTo target pos = (subVectors target pos)\<lparr>vy := 0\<rparr>"

text \<open>The direct candidate: the clone of the position, moved, with \<open>newPosition.y = 0\<close>.\<close>

definition newPositionOf :: "vec3 \<Rightarrow> vec3 \<Rightarrow> real \<Rightarrow> vec3" where
  "newPositionOf pos direction moveDistance =
     (addScaledVector pos direction moveDistance)\<lparr>vy := 0\<rparr>"

text \<open>
  The position chosen in a walking frame of src/unnamed/part_000: the direct candidate,
  else the first free one of the two perpendicular candidates, else the old position.
\<close>

definition stepPosition :: "world \<Rightarrow> nat \<Rightarrow> vec3 \<Rightarrow> vec3 \<Rightarrow> real \<Rightarrow> vec3" where
  "stepPosition w i pos direction moveDistance =
     (let newPosition = newPositionOf pos direction moveDistance
      in if \<not> checkCollision w i newPosition then newPosition
         else
           (let perpendicular1 = Vector3 (- vz direction) 0 (vx direction);
                perpendicular2 = Vector3 (vz direction) 0 (- vx direction);
                alt1 = addScaledVector pos perpendicular1 moveDistance;
                alt2 = addScaledVector pos perpendicular2 moveDistance
            in if \<not> checkCollision w i alt1 then alt1
               else if \<not> checkCollision w i alt2 then alt2
               else pos))"

text \<open>The position chosen in a walking frame of src/main.js: the direct candidate or none.\<close>

definition stepPosition_main :: "world \<Rightarrow> nat \<Rightarrow> vec3 \<Rightarrow> vec3 \<Rightarrow> real \<Rightarrow> vec3" where
  "stepPosition_main w i pos direction moveDistance =
     (let newPosition = newPositionOf pos direction moveDistance
      in if \<not> checkCollision_main w i newPosition then newPosition else pos)"

text \<open>
  The walking branch (\<open>distance\<close> above the arrival threshold), which the two files
  share word for word up to the collision handling; \<open>step\<close> is that handling.
  \<open>direction0\<close> is the direction before \<open>direction.normalize()\<close>.
\<close>

definition walkFrame ::
  "(vec3 \<Rightarrow> vec3 \<Rightarrow> real \<Rightarrow> vec3) \<Rightarrow> engineer \<Rightarrow> model3d \<Rightarrow> vec3 \<Rightarrow> real \<Rightarrow> engineer" where
  "walkFrame step this m direction0 distance =
     (let this' = (if currentState this \<noteq> ''walking'' then setState this ''walking'' else this);
          direction = normalize_v3 direction0;
          moveDistance = min (speed this) distance;
          pos' = step (position m) direction moveDistance
      in this'\<lparr>model := Some (m\<lparr>position := pos',
                   rotationY := rotateTowards direction (rotationY m)\<rparr>)\<rparr>)"

text \<open>
  The arrival branch of src/unnamed/part_000: clear the target, call the continuation
  once and clear it, go idle unless speaking or working.
\<close>

definition arrive :: "engineer \<Rightarrow> engineer" where
  "arrive this =
     (let this1 = this\<lparr>targetPosition := None\<rparr>;
          this2 = (case onArrivalCallback this1 of
                     None \<Rightarrow> this1
                   | Some cb \<Rightarrow>
                       (runCallback cb this1)
                         \<lparr>onArrivalCallback := None, arrivalLog := arrivalLog this1 @ [cb]\<rparr>)
      in if \<not> isSpeaking this2 \<and> \<not> isWorking this2 then setState this2 ''idle'' else this2)"

text \<open>The arrival branch of src/main.js, which has no continuation.\<close>

definition arrive_main :: "engineer \<Rightarrow> engineer" where
  "arrive_main this =
     (let this1 = this\<lparr>targetPosition := None\<rparr>
      in if \<not> isSpeaking this1 \<and> \<not> isWorking this1 then setState this1 ''idle'' else this1)"

text \<open>The block "Handle movement first (before state changes)".\<close>

definition handleMovement :: "world \<Rightarrow> nat \<Rightarrow> engineer \<Rightarrow> engineer" where
  "handleMovement w i this =
     (case (targetPosition this, model this) of
        (Some target, Some m) \<Rightarrow>
          if isWorking this then this
          else
            (let direction = directionTo target (position m);
                 distance = length_v3 direction
             in if distance > 1 / 2 then walkFrame (stepPosition w i) this m direction distance
                else arrive this)
      | _ \<Rightarrow> this)"

text \<open>The block "State management - set animation based on current state".\<close>

definition stateManagement :: "engineer \<Rightarrow> engineer" where
  "stateManagement this =
     (if isWorking this then
        (if currentState this \<noteq> ''working'' then setState this ''working'' else this)
      else if isSpeaking this \<and> targetPosition this = None then
        (if currentState this \<noteq> ''talking'' then setState this ''talking'' else this)
      else if targetPosition this = None \<and> \<not> isWorking this \<and> \<not> isSpeaking this then
        (if currentState this \<noteq> ''idle'' then setState this ''idle'' else this)
      else this)"

text \<open>
  \<open>Engineer.update\<close> of src/unnamed/part_000 for the engineer \<open>this\<close> at index \<open>i\<close> of
  \<open>engineers\<close>. \<open>updateDialoguePosition\<close> only moves a DOM element and is left out.
\<close>

definition update :: "world \<Rightarrow> nat \<Rightarrow> real \<Rightarrow> engineer \<Rightarrow> engineer" where
  "update w i deltaTime this = stateManagement (handleMovement w i (mixerUpdate deltaTime this))"

text \<open>The block "State machine" of src/main.js, with arrival at 0.2.\<close>

definition stateMachine_main :: "world \<Rightarrow> nat \<Rightarrow> engineer \<Rightarrow> engineer" where
  "stateMachine_main w i this =
     (if isSpeaking this then
        (if currentState this \<noteq> ''talking'' then setState this ''talking'' else this)
      else if isWorking this then
        (if currentState this \<noteq> ''working'' then setState this ''working'' else this)
      else
        (case (targetPosition this, model this) of
           (Some target, Some m) \<Rightarrow>
             (let direction = directionTo target (position m);
                  distance = length_v3 direction
              in if distance > 2 / 10
                 then walkFrame (stepPosition_main w i) this m direction distance
                 else arrive_main this)
         | _ \<Rightarrow>
             (if currentState this \<noteq> ''idle'' \<and> \<not> isSpeaking this \<and> \<not> isWorking this
              then setState this ''idle'' else this)))"

text \<open>\<open>Engineer.update\<close> of src/main.js.\<close>

definition update_main :: "world \<Rightarrow> nat \<Rightarrow> real \<Rightarrow> engineer \<Rightarrow> engineer" where
  "update_main w i deltaTime this = stateMachine_main w i (mixerUpdate deltaTime this)"

text \<open>The planar (XZ) distance between two points.\<close>

definition planarDistance :: "vec3 \<Rightarrow> vec3 \<Rightarrow> real" where
  "planarDistance p q = length_v2 (vx p - vx q) (vz p - vz q)"

section \<open>The reference scene\<close>

text \<open>
  The equipment of src/unnamed/part_000 and the three engineers as they stand once
  their model and the four clips have loaded. The examples below start from them.
\<close>

definition clip :: action where
  "clip = \<lparr>playing = False, timeScale = 1, weight = 1\<rparr>"

definition chiller :: obstacle where
  "chiller = \<lparr>worldPosition = Vector3 (- 10) 0 (- 8), radius = Some 5\<rparr>"

definition ahu :: obstacle where
  "ahu = \<lparr>worldPosition = Vector3 8 0 (- 8), radius = Some 3\<rparr>"

definition pump :: obstacle where
  "pump = \<lparr>worldPosition = Vector3 (- 5) (3 / 4) 5, radius = Some (3 / 2)\<rparr>"

definition coolingTower :: obstacle where
  "coolingTower = \<lparr>worldPosition = Vector3 10 2 5, radius = Some (28 / 10)\<rparr>"

definition standing :: "vec3 \<Rightarrow> engineer" where
  "standing p =
     \<lparr>model = Some \<lparr>position = p, rotationY = 0\<rparr>,
      mixer = Some 0,
      animations = [''standing'' \<mapsto> play clip, ''walking'' \<mapsto> clip,
                    ''talking'' \<mapsto> clip, ''working'' \<mapsto> clip],
      currentAnimation = Some ''standing'',
      currentState = ''idle'',
      targetPosition = None,
      speed = 5 / 100,
      dialogue = None,
      dialogueElement = None,
      isSpeaking = False,
      isWorking = False,
      onArrivalCallback = None,
      arrivalLog = []\<rparr>"

definition mike :: engineer where
  "mike = standing (Vector3 (- 3) 0 0)"

definition sarah :: engineer where
  "sarah = standing (Vector3 3 0 0)"

definition john :: engineer where
  "john = standing (Vector3 0 0 (- 5))"

definition room :: world where
  "room = \<lparr>collisionObjects = [chiller, ahu, pump, coolingTower],
            engineers = [mike, sarah, john]\<rparr>"

text \<open>An engineer standing at \<open>p\<close> with a target.\<close>

definition heading :: "vec3 \<Rightarrow> vec3 \<Rightarrow> engineer" where
  "heading p t = (standing p)\<lparr>targetPosition := Some t\<rparr>"

text \<open>The equipment of src/main.js: the same places, smaller chiller and AHU.\<close>

definition chiller_main :: obstacle where
  "chiller_main = \<lparr>worldPosition = Vector3 (- 10) (3 / 2) (- 8), radius = Some (5 / 2)\<rparr>"

definition ahu_main :: obstacle where
  "ahu_main = \<lparr>worldPosition = Vector3 8 1 (- 8), radius = Some 2\<rparr>"

definition room_main :: world where
  "room_main = \<lparr>collisionObjects = [chiller_main, ahu_main, pump, coolingTower],
                 engineers = [mike, sarah, john]\<rparr>"

text \<open>An engineer one tenth short of the stand point left of the pump, with the fix continuation.\<close>

definition arriving :: engineer where
  "arriving = (heading (Vector3 (- (71 / 10)) 0 5) (Vector3 (- 7) 0 5))
                \<lparr>onArrivalCallback := Some (FixArrival ''pump1'' ''pump'')\<rparr>"

section \<open>Notions used in the statements\<close>

text \<open>
  \<open>setState\<close> can enter state \<open>s\<close>: the engineer is in it already, or the clip that
  \<open>stateAnimationMap\<close> gives for it has loaded.
\<close>

definition clipReady :: "engineer \<Rightarrow> string \<Rightarrow> bool" where
  "clipReady this s =
     (currentState this = s \<or>
      (case stateAnimationMap s of
         None \<Rightarrow> False
       | Some animName \<Rightarrow> animations this animName \<noteq> None))"

definition withMixer :: "real option \<Rightarrow> engineer \<Rightarrow> engineer" where
  "withMixer a this = this\<lparr>mixer := a\<rparr>"

text \<open>
  The three candidates of a walking frame for an engineer with model \<open>m\<close> and target
  \<open>t\<close>, as \<open>walkFrame\<close> and \<open>stepPosition\<close> compute them: \<open>newPosition\<close>, \<open>alt1\<close>
  and \<open>alt2\<close>.
\<close>

definition moveDistanceOf :: "engineer \<Rightarrow> model3d \<Rightarrow> vec3 \<Rightarrow> real" where
  "moveDistanceOf this m t = min (speed this) (planarDistance t (position m))"

definition directCandidate :: "engineer \<Rightarrow> model3d \<Rightarrow> vec3 \<Rightarrow> vec3" where
  "directCandidate this m t =
     newPositionOf (position m) (normalize_v3 (directionTo t (position m)))
       (moveDistanceOf this m t)"

definition sideCandidate1 :: "engineer \<Rightarrow> model3d \<Rightarrow> vec3 \<Rightarrow> vec3" where
  "sideCandidate1 this m t =
     (let direction = normalize_v3 (directionTo t (position m))
      in addScaledVector (position m) (Vector3 (- vz direction) 0 (vx direction))
           (moveDistanceOf this m t))"

definition sideCandidate2 :: "engineer \<Rightarrow> model3d \<Rightarrow> vec3 \<Rightarrow> vec3" where
  "sideCandidate2 this m t =
     (let direction = normalize_v3 (directionTo t (position m))
      in addScaledVector (position m) (Vector3 (vz direction) 0 (- vx direction))
           (moveDistanceOf this m t))"

text \<open>
  Mid-walk: a target is set, the model has loaded, and the target is farther than the
  arrival threshold.
\<close>

definition midWalk :: "real \<Rightarrow> engineer \<Rightarrow> bool" where
  "midWalk threshold this =
     (case (targetPosition this, model this) of
        (Some t, Some m) \<Rightarrow> threshold < planarDistance t (position m)
      | _ \<Rightarrow> False)"

text \<open>
  The precedence as the specification words it: Working, then Talking when not
  mid-walk, then Walking, then Idle.
\<close>

definition precedence :: "bool \<Rightarrow> bool \<Rightarrow> bool \<Rightarrow> string" where
  "precedence working speaking walking =
     (if working then ''working''
      else if speaking \<and> \<not> walking then ''talking''
      else if walking then ''walking''
      else ''idle'')"

text \<open>The order of the state machine of src/main.js: Talking comes first.\<close>

definition precedence_main :: "bool \<Rightarrow> bool \<Rightarrow> bool \<Rightarrow> string" where
  "precedence_main working speaking walking =
     (if speaking then ''talking''
      else if working then ''working''
      else if walking then ''walking''
      else ''idle'')"

text \<open>
  What can happen to an engineer of src/unnamed/part_000 from one frame on, short of a
  \<open>moveTo\<close> that installs a new continuation: a frame (in whatever world the others
  have made), a call of \<open>speak\<close>, the timers of \<open>speak\<close> and \<open>work\<close>, and a \<open>moveTo\<close>
  without \<open>onArrival\<close>.
\<close>

datatype event =
    Frame world real
  | SpeakCall string real
  | SpeakTimer
  | WorkTimer
  | MoveToCall world vec3 real

fun applyEvent :: "nat \<Rightarrow> event \<Rightarrow> engineer \<Rightarrow> engineer" where
  "applyEvent i (Frame w deltaTime) this = update w i deltaTime this"
| "applyEvent i (SpeakCall text duration) this = speak this text duration"
| "applyEvent i SpeakTimer this = speakTimeout this"
| "applyEvent i WorkTimer this = workTimeout this"
| "applyEvent i (MoveToCall w targetPos random) this = moveTo w i this targetPos None random"

fun applyEvents :: "nat \<Rightarrow> event list \<Rightarrow> engineer \<Rightarrow> engineer" where
  "applyEvents i [] this = this"
| "applyEvents i (ev # evs) this = applyEvents i evs (applyEvent i ev this)"

section \<open>The same arithmetic on IEEE doubles\<close>

text \<open>
  A JavaScript number is an IEEE binary64. Each of \<open>+\<close>, \<open>-\<close>, \<open>*\<close>, \<open>/\<close> and \<open>Math.sqrt\<close>
  returns the exact result rounded to the nearest double, ties to the even one. \<open>fl\<close> is
  that rounding on the normal range (52 fraction bits, exponent unbounded: overflow and
  subnormals are left out, the values below are far from both). The vector operations
  with suffix \<open>_d\<close> are the ones above with every operation rounded, in the order in
  which three.js writes them; \<open>divideScalar(s)\<close> is \<open>multiplyScalar(1 / s)\<close>.
\<close>

text \<open>Round to the nearest integer, ties to even.\<close>

definition roundEven :: "real \<Rightarrow> int" where
  "roundEven r =
     (let f = \<lfloor>r\<rfloor>;
          d = r - of_int f
      in if d < 1 / 2 then f
         else if 1 / 2 < d then f + 1
         else if even f then f else f + 1)"

text \<open>The power of two with an integer exponent.\<close>

definition pow2 :: "int \<Rightarrow> real" where
  "pow2 e = (if 0 \<le> e then 2 ^ nat e else 1 / 2 ^ nat (- e))"

text \<open>
  The double nearest to \<open>x\<close>: with \<open>2 ^ e \<le> |x| < 2 ^ (e + 1)\<close> the doubles around \<open>x\<close>
  are the multiples of \<open>2 ^ (e - 52)\<close>.
\<close>

definition fl :: "real \<Rightarrow> real" where
  "fl x =
     (if x = 0 then 0
      else (let e = \<lfloor>log 2 \<bar>x\<bar>\<rfloor>;
                u = pow2 (e - 52)
            in u * of_int (roundEven (x / u))))"



















section \<open>Field lemmas\<close>

lemma setState_fields [simp]:
  "model (setState this s) = model this"
  "mixer (setState this s) = mixer this"
  "targetPosition (setState this s) = targetPosition this"
  "speed (setState this s) = speed this"
  "dialogue (setState this s) = dialogue this"
  "dialogueElement (setState this s) = dialogueElement this"
  "isSpeaking (setState this s) = isSpeaking this"
  "isWorking (setState this s) = isWorking this"
  "onArrivalCallback (setState this s) = onArrivalCallback this"
  "arrivalLog (setState this s) = arrivalLog this"
  by (simp_all add: setState_def Let_def split: option.splits)

lemma setState_loaded [simp]:
  "(animations (setState this s) k = None) = (animations this k = None)"
  by (simp add: setState_def Let_def split: option.splits)

lemma setState_currentState:
  "clipReady this s \<Longrightarrow> currentState (setState this s) = s"
  by (auto simp add: clipReady_def setState_def Let_def split: option.splits)

lemma setState_noop:
  "\<not> clipReady this s \<Longrightarrow> setState this s = this"
  by (auto simp add: clipReady_def setState_def Let_def split: option.splits)

lemma runCallback_fields [simp]:
  "model (runCallback cb this) = model this"
  "mixer (runCallback cb this) = mixer this"
  "targetPosition (runCallback cb this) = targetPosition this"
  "speed (runCallback cb this) = speed this"
  "animations (runCallback cb this) = animations this"
  "currentState (runCallback cb this) = currentState this"
  "isSpeaking (runCallback cb this) = True"
  "isWorking (runCallback cb this) = True"
  "onArrivalCallback (runCallback cb this) = onArrivalCallback this"
  "arrivalLog (runCallback cb this) = arrivalLog this"
  by (cases cb; simp add: speak_def work_def showDialogue_def)+

lemma mixerUpdate_fields [simp]:
  "model (mixerUpdate d this) = model this"
  "animations (mixerUpdate d this) = animations this"
  "currentState (mixerUpdate d this) = currentState this"
  "currentAnimation (mixerUpdate d this) = currentAnimation this"
  "targetPosition (mixerUpdate d this) = targetPosition this"
  "speed (mixerUpdate d this) = speed this"
  "isSpeaking (mixerUpdate d this) = isSpeaking this"
  "isWorking (mixerUpdate d this) = isWorking this"
  "onArrivalCallback (mixerUpdate d this) = onArrivalCallback this"
  "arrivalLog (mixerUpdate d this) = arrivalLog this"
  "dialogue (mixerUpdate d this) = dialogue this"
  "dialogueElement (mixerUpdate d this) = dialogueElement this"
  by (simp_all add: mixerUpdate_def)

lemma stateManagement_fields [simp]:
  "model (stateManagement this) = model this"
  "mixer (stateManagement this) = mixer this"
  "targetPosition (stateManagement this) = targetPosition this"
  "speed (stateManagement this) = speed this"
  "isSpeaking (stateManagement this) = isSpeaking this"
  "isWorking (stateManagement this) = isWorking this"
  "onArrivalCallback (stateManagement this) = onArrivalCallback this"
  "arrivalLog (stateManagement this) = arrivalLog this"
  by (simp_all add: stateManagement_def)

lemma walkFrame_fields [simp]:
  "model (walkFrame step this m d0 dst) =
     Some (m\<lparr>position := step (position m) (normalize_v3 d0) (min (speed this) dst),
              rotationY := rotateTowards (normalize_v3 d0) (rotationY m)\<rparr>)"
  "mixer (walkFrame step this m d0 dst) = mixer this"
  "targetPosition (walkFrame step this m d0 dst) = targetPosition this"
  "speed (walkFrame step this m d0 dst) = speed this"
  "isSpeaking (walkFrame step this m d0 dst) = isSpeaking this"
  "isWorking (walkFrame step this m d0 dst) = isWorking this"
  "onArrivalCallback (walkFrame step this m d0 dst) = onArrivalCallback this"
  "arrivalLog (walkFrame step this m d0 dst) = arrivalLog this"
  by (simp_all add: walkFrame_def Let_def)

lemma arrive_main_fields [simp]:
  "model (arrive_main this) = model this"
  "mixer (arrive_main this) = mixer this"
  "targetPosition (arrive_main this) = None"
  "speed (arrive_main this) = speed this"
  "isSpeaking (arrive_main this) = isSpeaking this"
  "isWorking (arrive_main this) = isWorking this"
  "onArrivalCallback (arrive_main this) = onArrivalCallback this"
  "arrivalLog (arrive_main this) = arrivalLog this"
  by (simp_all add: arrive_main_def Let_def)

lemma arrive_fields [simp]:
  "model (arrive this) = model this"
  "mixer (arrive this) = mixer this"
  "targetPosition (arrive this) = None"
  "speed (arrive this) = speed this"
  "onArrivalCallback (arrive this) = None"
  "arrivalLog (arrive this) =
     arrivalLog this @ (case onArrivalCallback this of None \<Rightarrow> [] | Some cb \<Rightarrow> [cb])"
  by (simp_all add: arrive_def Let_def split: option.splits)

section \<open>Distances and the collision loops\<close>

lemma length_v3_directionTo:
  "length_v3 (directionTo t p) = planarDistance t p"
  by (simp add: length_v3_def directionTo_def subVectors_def Vector3_def planarDistance_def
        length_v2_def)

lemma equipmentLoop_iff:
  "equipmentLoop p objs =
     (\<exists>obj \<in> set objs. planarDistance p (worldPosition obj) < engineerRadius + collisionRadius obj)"
  by (induction objs) (auto simp add: Let_def planarDistance_def)

lemma engineersLoop_iff:
  "engineersLoop i p j es =
     (\<exists>k < length es. j + k \<noteq> i \<and>
        (\<exists>m. model (es ! k) = Some m \<and> planarDistance p (position m) < engineerRadius * 2))"
proof (induction es arbitrary: j)
  case Nil
  then show ?case by simp
next
  case (Cons e es)
  have split: "\<And>P. (\<exists>k < length (e # es). P k) = (P 0 \<or> (\<exists>k < length es. P (Suc k)))"
    by (auto simp add: less_Suc_eq_0_disj)
  show ?case
    by (subst split) (auto simp add: Cons.IH Let_def planarDistance_def)
qed

text \<open>Comparing a length with a bound is comparing the squares: no root is needed.\<close>

lemma length_v2_less_iff:
  "(length_v2 a b < r) = (0 < r \<and> a * a + b * b < r * r)"
proof (cases "0 < r")
  case True
  have "(sqrt (a * a + b * b) < r) = (sqrt (a * a + b * b) < sqrt (r * r))"
    using True by simp
  also have "\<dots> = (a * a + b * b < r * r)"
    by (rule real_sqrt_less_iff)
  finally show ?thesis using True by (simp add: length_v2_def)
next
  case False
  have "0 \<le> length_v2 a b" by (simp add: length_v2_def)
  with False show ?thesis by simp
qed

lemma equipmentLoop_Cons_sq:
  "equipmentLoop p (obj # objs) =
     ((0 < engineerRadius + collisionRadius obj \<and>
       (vx p - vx (worldPosition obj)) * (vx p - vx (worldPosition obj)) +
       (vz p - vz (worldPosition obj)) * (vz p - vz (worldPosition obj))
         < (engineerRadius + collisionRadius obj) * (engineerRadius + collisionRadius obj)) \<or>
      equipmentLoop p objs)"
  by (simp only: equipmentLoop.simps Let_def length_v2_less_iff) auto

lemma engineersLoop_Cons_sq:
  "engineersLoop i p j (other # rest) =
     ((j \<noteq> i \<and> (case model other of None \<Rightarrow> False | Some m \<Rightarrow>
         (vx p - vx (position m)) * (vx p - vx (position m)) +
         (vz p - vz (position m)) * (vz p - vz (position m)) < 1)) \<or>
      engineersLoop i p (Suc j) rest)"
proof -
  have "(0 < engineerRadius * 2) = True" "engineerRadius * 2 * (engineerRadius * 2) = 1"
    by (simp_all add: engineerRadius_def)
  then show ?thesis
    by (simp only: engineersLoop.simps Let_def length_v2_less_iff) (auto split: option.splits)
qed

lemma length_v2_axis [simp]: "length_v2 a 0 = \<bar>a\<bar>" "length_v2 0 a = \<bar>a\<bar>"
  by (simp_all add: length_v2_def)

lemmas scene_defs = room_def room_main_def chiller_def chiller_main_def ahu_def ahu_main_def
  pump_def coolingTower_def mike_def sarah_def john_def standing_def heading_def clip_def
  Vector3_def

lemmas geometry_defs = planarDistance_def engineerRadius_def collisionRadius_def
  directionTo_def subVectors_def normalize_v3_def addScaledVector_def newPositionOf_def
  length_v3_def moveDistanceOf_def directCandidate_def sideCandidate1_def sideCandidate2_def

lemmas collision_eval = checkCollision_def checkCollision_main_def equipmentLoop_Cons_sq
  engineersLoop_Cons_sq

section \<open>What a frame does to the model\<close>

lemma handleMovement_working:
  "isWorking this \<Longrightarrow> handleMovement w i this = this"
  by (simp add: handleMovement_def split: option.splits)

lemma handleMovement_no_target:
  "targetPosition this = None \<Longrightarrow> handleMovement w i this = this"
  by (simp add: handleMovement_def split: option.splits)

lemma update_working:
  "isWorking this \<Longrightarrow>
     model (update w i d this) = model this \<and>
     targetPosition (update w i d this) = targetPosition this"
  by (simp add: update_def handleMovement_working)

lemma update_main_working:
  "isWorking this \<Longrightarrow>
     model (update_main w i d this) = model this \<and>
     targetPosition (update_main w i d this) = targetPosition this"
  by (simp add: update_main_def stateMachine_main_def)

lemma update_no_target:
  "targetPosition this = None \<Longrightarrow> model (update w i d this) = model this"
  by (simp add: update_def handleMovement_no_target)

lemma update_main_no_target:
  "targetPosition this = None \<Longrightarrow> model (update_main w i d this) = model this"
  by (simp add: update_main_def stateMachine_main_def)

lemma update_model_walk:
  assumes "model this = Some m" "targetPosition this = Some t" "\<not> isWorking this"
    and "planarDistance t (position m) > 1 / 2"
  shows "model (update w i d this) =
    Some (m\<lparr>position := stepPosition w i (position m) (normalize_v3 (directionTo t (position m)))
                           (min (speed this) (planarDistance t (position m))),
             rotationY := rotateTowards (normalize_v3 (directionTo t (position m))) (rotationY m)\<rparr>)"
  using assms
  by (simp add: update_def handleMovement_def Let_def length_v3_directionTo)

lemma update_main_model_walk:
  assumes "model this = Some m" "targetPosition this = Some t" "\<not> isWorking this"
    "\<not> isSpeaking this"
    and "planarDistance t (position m) > 2 / 10"
  shows "model (update_main w i d this) =
    Some (m\<lparr>position := stepPosition_main w i (position m)
                           (normalize_v3 (directionTo t (position m)))
                           (min (speed this) (planarDistance t (position m))),
             rotationY := rotateTowards (normalize_v3 (directionTo t (position m))) (rotationY m)\<rparr>)"
  using assms
  by (simp add: update_main_def stateMachine_main_def Let_def length_v3_directionTo)

text \<open>Every position a frame can produce is the old one or one that is not blocked.\<close>

lemma stepPosition_cases:
  "stepPosition w i p dir md = p \<or> \<not> checkCollision w i (stepPosition w i p dir md)"
  by (simp add: stepPosition_def Let_def)

lemma stepPosition_main_cases:
  "stepPosition_main w i p dir md = p \<or>
   \<not> checkCollision_main w i (stepPosition_main w i p dir md)"
  by (simp add: stepPosition_main_def Let_def)

lemma update_position_cases:
  assumes "model this = Some m"
  shows "\<exists>m'. model (update w i d this) = Some m' \<and>
           (position m' = position m \<or> \<not> checkCollision w i (position m'))"
proof (cases "targetPosition this")
  case None
  then show ?thesis using assms by (simp add: update_no_target)
next
  case (Some t)
  show ?thesis
  proof (cases "isWorking this")
    case True
    then show ?thesis using assms by (simp add: update_working)
  next
    case False
    show ?thesis
    proof (cases "planarDistance t (position m) > 1 / 2")
      case True
      then show ?thesis
        using update_model_walk [OF assms Some False True, of w i d] stepPosition_cases [of w i]
        by auto
    next
      case near: False
      then show ?thesis using assms Some False
        by (simp add: update_def handleMovement_def Let_def length_v3_directionTo)
    qed
  qed
qed

lemma update_main_position_cases:
  assumes "model this = Some m"
  shows "\<exists>m'. model (update_main w i d this) = Some m' \<and>
           (position m' = position m \<or> \<not> checkCollision_main w i (position m'))"
  using assms stepPosition_main_cases [of w i "position m"]
  by (auto simp add: update_main_def stateMachine_main_def Let_def split: option.splits)

lemma free_equipment:
  assumes "\<not> equipmentLoop p (collisionObjects w)" "obj \<in> set (collisionObjects w)"
  shows "engineerRadius + collisionRadius obj \<le> planarDistance p (worldPosition obj)"
  using assms by (auto simp add: equipmentLoop_iff not_less)

section \<open>The mixer is the only consumer of the elapsed time\<close>

lemma withMixer_fields [simp]:
  "model (withMixer a this) = model this"
  "animations (withMixer a this) = animations this"
  "currentState (withMixer a this) = currentState this"
  "targetPosition (withMixer a this) = targetPosition this"
  "speed (withMixer a this) = speed this"
  "isSpeaking (withMixer a this) = isSpeaking this"
  "isWorking (withMixer a this) = isWorking this"
  "onArrivalCallback (withMixer a this) = onArrivalCallback this"
  "arrivalLog (withMixer a this) = arrivalLog this"
  "mixer (withMixer a this) = a"
  by (simp_all add: withMixer_def)

lemma withMixer_updates:
  "(withMixer a this)\<lparr>targetPosition := t\<rparr> = withMixer a (this\<lparr>targetPosition := t\<rparr>)"
  "(withMixer a this)\<lparr>model := m\<rparr> = withMixer a (this\<lparr>model := m\<rparr>)"
  "(withMixer a this)\<lparr>onArrivalCallback := c, arrivalLog := l\<rparr> =
     withMixer a (this\<lparr>onArrivalCallback := c, arrivalLog := l\<rparr>)"
  by (simp_all add: withMixer_def)

lemma setState_withMixer:
  "setState (withMixer a this) s = withMixer a (setState this s)"
  by (simp add: setState_def withMixer_def Let_def split: option.splits)

lemma runCallback_withMixer:
  "runCallback cb (withMixer a this) = withMixer a (runCallback cb this)"
  by (cases cb) (simp add: speak_def work_def showDialogue_def withMixer_def)

lemma arrive_withMixer:
  "arrive (withMixer a this) = withMixer a (arrive this)"
  by (simp add: arrive_def Let_def withMixer_updates setState_withMixer runCallback_withMixer
           split: option.splits)

lemma arrive_main_withMixer:
  "arrive_main (withMixer a this) = withMixer a (arrive_main this)"
  by (simp add: arrive_main_def Let_def withMixer_updates setState_withMixer)

lemma walkFrame_withMixer:
  "walkFrame step (withMixer a this) m d0 dst = withMixer a (walkFrame step this m d0 dst)"
  by (simp add: walkFrame_def Let_def withMixer_updates setState_withMixer)

lemma handleMovement_withMixer:
  "handleMovement w i (withMixer a this) = withMixer a (handleMovement w i this)"
  by (simp add: handleMovement_def Let_def walkFrame_withMixer arrive_withMixer
           split: option.splits)

lemma stateManagement_withMixer:
  "stateManagement (withMixer a this) = withMixer a (stateManagement this)"
  by (simp add: stateManagement_def setState_withMixer)

lemma stateMachine_main_withMixer:
  "stateMachine_main w i (withMixer a this) = withMixer a (stateMachine_main w i this)"
  by (simp add: stateMachine_main_def Let_def walkFrame_withMixer arrive_main_withMixer
        setState_withMixer split: option.splits)

lemma mixerUpdate_withMixer:
  "mixerUpdate d this = withMixer (map_option (\<lambda>t. t + d) (mixer this)) this"
  by (simp add: mixerUpdate_def withMixer_def)

lemma update_withMixer:
  "update w i d this =
     withMixer (map_option (\<lambda>t. t + d) (mixer this)) (stateManagement (handleMovement w i this))"
  by (simp add: update_def mixerUpdate_withMixer handleMovement_withMixer
        stateManagement_withMixer)

lemma update_main_withMixer:
  "update_main w i d this =
     withMixer (map_option (\<lambda>t. t + d) (mixer this)) (stateMachine_main w i this)"
  by (simp add: update_main_def mixerUpdate_withMixer stateMachine_main_withMixer)

section \<open>Geometry of a step, and the reference scene at work\<close>

lemma planarDistance_nonneg [simp]: "0 \<le> planarDistance p q"
  by (simp add: planarDistance_def length_v2_def)





lemma mike_walks:
  "model (update room 0 d (heading (Vector3 (- 3) 0 0) (Vector3 (- 1) 0 0))) =
     Some \<lparr>position = Vector3 (- (59 / 20)) 0 0,
           rotationY = rotateTowards (Vector3 1 0 0) 0\<rparr>"
  apply (subst update_model_walk
           [where m = "\<lparr>position = Vector3 (- 3) 0 0, rotationY = 0\<rparr>" and t = "Vector3 (- 1) 0 0"])
      apply (simp_all add: scene_defs geometry_defs)
  apply (simp add: stepPosition_def collision_eval scene_defs geometry_defs Let_def
       del: equipmentLoop.simps(2) engineersLoop.simps(2))
  done

lemma mike_walks_main:
  "model (update_main room_main 0 d (heading (Vector3 (- 3) 0 0) (Vector3 (- 1) 0 0))) =
     Some \<lparr>position = Vector3 (- (59 / 20)) 0 0,
           rotationY = rotateTowards (Vector3 1 0 0) 0\<rparr>"
  apply (subst update_main_model_walk
           [where m = "\<lparr>position = Vector3 (- 3) 0 0, rotationY = 0\<rparr>" and t = "Vector3 (- 1) 0 0"])
      apply (simp_all add: scene_defs geometry_defs)
  apply (simp add: stepPosition_main_def collision_eval scene_defs geometry_defs Let_def
       del: equipmentLoop.simps(2) engineersLoop.simps(2))
  done

text \<open>At the pump: the direct step is blocked, the first side step is free.\<close>

lemma pump_candidates:
  "directCandidate (heading (Vector3 (- 3) 0 5) (Vector3 (- 7) 0 5))
     \<lparr>position = Vector3 (- 3) 0 5, rotationY = 0\<rparr> (Vector3 (- 7) 0 5) = Vector3 (- (61 / 20)) 0 5"
  "sideCandidate1 (heading (Vector3 (- 3) 0 5) (Vector3 (- 7) 0 5))
     \<lparr>position = Vector3 (- 3) 0 5, rotationY = 0\<rparr> (Vector3 (- 7) 0 5) = Vector3 (- 3) 0 (99 / 20)"
  by (simp_all add: scene_defs geometry_defs)

lemma pump_blocked:
  "checkCollision room 0 (Vector3 (- (61 / 20)) 0 5)"
  "checkCollision_main room_main 0 (Vector3 (- (61 / 20)) 0 5)"
  "\<not> checkCollision room 0 (Vector3 (- 3) 0 (99 / 20))"
  "\<not> checkCollision_main room_main 0 (Vector3 (- 3) 0 (99 / 20))"
  by (simp_all add: collision_eval scene_defs geometry_defs
       del: equipmentLoop.simps(2) engineersLoop.simps(2))

lemma pump_detour:
  "map_option position (model (update room 0 d (heading (Vector3 (- 3) 0 5) (Vector3 (- 7) 0 5)))) =
     Some (Vector3 (- 3) 0 (99 / 20))"
  apply (subst update_model_walk
           [where m = "\<lparr>position = Vector3 (- 3) 0 5, rotationY = 0\<rparr>" and t = "Vector3 (- 7) 0 5"])
      apply (simp_all add: scene_defs geometry_defs)
  apply (simp add: stepPosition_def collision_eval scene_defs geometry_defs Let_def
       del: equipmentLoop.simps(2) engineersLoop.simps(2))
  done

lemma pump_wait_main:
  "map_option position (model (update_main room_main 0 d (heading (Vector3 (- 3) 0 5) (Vector3 (- 7) 0 5)))) =
     Some (Vector3 (- 3) 0 5)"
  apply (subst update_main_model_walk
           [where m = "\<lparr>position = Vector3 (- 3) 0 5, rotationY = 0\<rparr>" and t = "Vector3 (- 7) 0 5"])
      apply (simp_all add: scene_defs geometry_defs)
  apply (simp add: stepPosition_main_def collision_eval scene_defs geometry_defs Let_def
       del: equipmentLoop.simps(2) engineersLoop.simps(2))
  done



lemma stepPosition_candidates:
  "stepPosition w i (position m) (normalize_v3 (directionTo t (position m)))
      (min (speed this) (planarDistance t (position m))) =
     (if \<not> checkCollision w i (directCandidate this m t) then directCandidate this m t
      else if \<not> checkCollision w i (sideCandidate1 this m t) then sideCandidate1 this m t
      else if \<not> checkCollision w i (sideCandidate2 this m t) then sideCandidate2 this m t
      else position m)"
  by (simp add: stepPosition_def directCandidate_def sideCandidate1_def sideCandidate2_def
        moveDistanceOf_def Let_def)

lemma stepPosition_main_candidates:
  "stepPosition_main w i (position m) (normalize_v3 (directionTo t (position m)))
      (min (speed this) (planarDistance t (position m))) =
     (if \<not> checkCollision_main w i (directCandidate this m t) then directCandidate this m t
      else position m)"
  by (simp add: stepPosition_main_def directCandidate_def moveDistanceOf_def Let_def)

lemma side_candidates_rotated:
  "vx (sideCandidate1 this m t) - vx (position m) =
     - (vz (directCandidate this m t) - vz (position m))"
  "vz (sideCandidate1 this m t) - vz (position m) =
     vx (directCandidate this m t) - vx (position m)"
  "vx (sideCandidate2 this m t) - vx (position m) =
     vz (directCandidate this m t) - vz (position m)"
  "vz (sideCandidate2 this m t) - vz (position m) =
     - (vx (directCandidate this m t) - vx (position m))"
  by (simp_all add: sideCandidate1_def sideCandidate2_def directCandidate_def Let_def
        addScaledVector_def newPositionOf_def Vector3_def)

lemma side_candidates_length:
  "planarDistance (sideCandidate1 this m t) (position m) =
     planarDistance (directCandidate this m t) (position m)"
  "planarDistance (sideCandidate2 this m t) (position m) =
     planarDistance (directCandidate this m t) (position m)"
proof -
  have sq: "\<And>a b :: real. (- a) * (- a) + b * b = b * b + a * a"
    by (simp add: algebra_simps)
  show "planarDistance (sideCandidate1 this m t) (position m) =
     planarDistance (directCandidate this m t) (position m)"
    unfolding planarDistance_def length_v2_def
    by (simp only: side_candidates_rotated sq)
  show "planarDistance (sideCandidate2 this m t) (position m) =
     planarDistance (directCandidate this m t) (position m)"
    unfolding planarDistance_def length_v2_def
    by (simp only: side_candidates_rotated minus_mult_minus add.commute)
qed




section \<open>The state after a frame\<close>

lemma clipReady_cong:
  "currentState a = currentState b \<Longrightarrow> animations a = animations b \<Longrightarrow>
     clipReady a s = clipReady b s"
  by (simp add: clipReady_def split: option.splits)

lemma clipReady_mixerUpdate [simp]:
  "clipReady (mixerUpdate d this) s = clipReady this s"
  by (rule clipReady_cong) simp_all

lemma clipReady_target [simp]:
  "clipReady (this\<lparr>targetPosition := t\<rparr>) s = clipReady this s"
  by (rule clipReady_cong) simp_all

lemma setState_same:
  "currentState this = s \<Longrightarrow> setState this s = this"
  by (simp add: setState_def)

lemma walkFrame_currentState:
  "clipReady this ''walking'' \<Longrightarrow> currentState (walkFrame step this m d0 dst) = ''walking''"
  by (simp add: walkFrame_def Let_def setState_currentState)

lemma stateManagement_currentState:
  "currentState (stateManagement this) =
     (if isWorking this then currentState (setState this ''working'')
      else if isSpeaking this \<and> targetPosition this = None
        then currentState (setState this ''talking'')
      else if targetPosition this = None then currentState (setState this ''idle'')
      else currentState this)"
  by (simp add: stateManagement_def setState_def)

lemma arrive_flags_no_callback:
  "onArrivalCallback this = None \<Longrightarrow>
     isWorking (arrive this) = isWorking this \<and> isSpeaking (arrive this) = isSpeaking this"
  by (simp add: arrive_def Let_def)

lemma arrive_flags_callback:
  "onArrivalCallback this = Some cb \<Longrightarrow> isWorking (arrive this) \<and> isSpeaking (arrive this)"
  by (simp add: arrive_def Let_def)

lemma arrive_state_callback:
  "onArrivalCallback this = Some cb \<Longrightarrow>
     currentState (arrive this) = currentState this \<and> animations (arrive this) = animations this"
  by (simp add: arrive_def Let_def)

lemma arrive_state_no_callback:
  "onArrivalCallback this = None \<Longrightarrow>
     arrive this =
       (if \<not> isSpeaking this \<and> \<not> isWorking this
        then setState (this\<lparr>targetPosition := None\<rparr>) ''idle''
        else this\<lparr>targetPosition := None\<rparr>)"
  by (simp add: arrive_def Let_def)

lemma update_precedence:
  assumes m: "model this \<noteq> None"
    and ready: "clipReady this
       (precedence (isWorking (update w i d this)) (isSpeaking (update w i d this))
          (midWalk (1 / 2) this))"
  shows "currentState (update w i d this) =
       precedence (isWorking (update w i d this)) (isSpeaking (update w i d this))
          (midWalk (1 / 2) this)"
proof -
  let ?e1 = "mixerUpdate d this"
  from m obtain mm where mm: "model this = Some mm" by auto
  show ?thesis
  proof (cases "isWorking this")
    case True
    then have h: "handleMovement w i ?e1 = ?e1" by (simp add: handleMovement_working)
    from True ready have "clipReady this ''working''"
      by (simp add: update_def h precedence_def)
    then show ?thesis using True
      by (simp add: update_def h precedence_def stateManagement_currentState setState_currentState)
  next
    case nw: False
    show ?thesis
    proof (cases "targetPosition this")
      case None
      then have h: "handleMovement w i ?e1 = ?e1" by (simp add: handleMovement_no_target)
      have mw: "\<not> midWalk (1 / 2) this" using None by (simp add: midWalk_def)
      show ?thesis
      proof (cases "isSpeaking this")
        case True
        with nw mw ready have "clipReady this ''talking''"
          by (simp add: update_def h precedence_def)
        then show ?thesis using True nw mw None
          by (simp add: update_def h precedence_def stateManagement_currentState
                setState_currentState)
      next
        case False
        with nw mw ready have "clipReady this ''idle''"
          by (simp add: update_def h precedence_def)
        then show ?thesis using False nw mw None
          by (simp add: update_def h precedence_def stateManagement_currentState
                setState_currentState)
      qed
    next
      case (Some t)
      show ?thesis
      proof (cases "1 / 2 < planarDistance t (position mm)")
        case True
        then have mw: "midWalk (1 / 2) this" using Some mm by (simp add: midWalk_def)
        have h: "handleMovement w i ?e1 =
                   walkFrame (stepPosition w i) ?e1 mm (directionTo t (position mm))
                     (planarDistance t (position mm))"
          using True Some mm nw
          by (simp add: handleMovement_def Let_def length_v3_directionTo)
        from nw mw ready have "clipReady this ''walking''"
          by (simp add: update_def h precedence_def)
        then show ?thesis using nw mw Some
          by (simp add: update_def h precedence_def stateManagement_currentState
                walkFrame_currentState)
      next
        case near: False
        then have mw: "\<not> midWalk (1 / 2) this" using Some mm by (simp add: midWalk_def)
        have h: "handleMovement w i ?e1 = arrive ?e1"
          using near Some mm nw
          by (simp add: handleMovement_def Let_def length_v3_directionTo)
        show ?thesis
        proof (cases "onArrivalCallback this")
          case (Some cb)
          then have cb: "onArrivalCallback ?e1 = Some cb" by simp
          from ready arrive_flags_callback [OF cb] have "clipReady this ''working''"
            by (simp add: update_def h precedence_def)
          then have "clipReady (arrive ?e1) ''working''"
            using arrive_state_callback [OF cb]
              clipReady_cong [of "arrive ?e1" this "''working''"] by simp
          then show ?thesis using arrive_flags_callback [OF cb]
            by (simp add: update_def h precedence_def stateManagement_currentState
                  setState_currentState)
        next
          case None
          then have cb: "onArrivalCallback ?e1 = None" by simp
          show ?thesis
          proof (cases "isSpeaking this")
            case True
            with nw mw ready have "clipReady this ''talking''"
              using arrive_flags_no_callback [OF cb]
              by (simp add: update_def h precedence_def)
            then show ?thesis using True nw mw
              by (simp add: update_def h precedence_def stateManagement_currentState
                    arrive_state_no_callback [OF cb] setState_currentState)
          next
            case False
            with nw mw ready have r: "clipReady this ''idle''"
              using arrive_flags_no_callback [OF cb]
              by (simp add: update_def h precedence_def)
            then have i: "currentState (setState (?e1\<lparr>targetPosition := None\<rparr>) ''idle'') = ''idle''"
              by (simp add: setState_currentState)
            have a: "arrive ?e1 = setState (?e1\<lparr>targetPosition := None\<rparr>) ''idle''"
              using False nw by (simp add: arrive_state_no_callback [OF cb])
            show ?thesis using False nw mw i
              by (simp add: update_def h a precedence_def stateManagement_currentState
                    setState_same)
          qed
        qed
      qed
    qed
  qed
qed

lemma arrive_main_currentState:
  "clipReady this ''idle'' \<Longrightarrow> \<not> isSpeaking this \<Longrightarrow> \<not> isWorking this \<Longrightarrow>
     currentState (arrive_main this) = ''idle''"
  by (simp add: arrive_main_def Let_def setState_currentState)

lemma stateMachine_main_precedence:
  assumes ready: "clipReady this
       (precedence_main (isWorking this) (isSpeaking this) (midWalk (2 / 10) this))"
  shows "currentState (stateMachine_main w i this) =
       precedence_main (isWorking this) (isSpeaking this) (midWalk (2 / 10) this)"
proof (cases "isSpeaking this")
  case True
  with ready have "clipReady this ''talking''" by (simp add: precedence_main_def)
  then show ?thesis using True
    by (simp add: stateMachine_main_def precedence_main_def setState_currentState)
next
  case ns: False
  show ?thesis
  proof (cases "isWorking this")
    case True
    with ns ready have "clipReady this ''working''" by (simp add: precedence_main_def)
    then show ?thesis using True ns
      by (simp add: stateMachine_main_def precedence_main_def setState_currentState)
  next
    case nw: False
    show ?thesis
    proof (cases "midWalk (2 / 10) this")
      case True
      then obtain t m where tm: "targetPosition this = Some t" "model this = Some m"
        and far: "2 / 10 < planarDistance t (position m)"
        by (auto simp add: midWalk_def split: option.splits)
      from ns nw True ready have "clipReady this ''walking''" by (simp add: precedence_main_def)
      then show ?thesis using ns nw True tm far
        by (simp add: stateMachine_main_def precedence_main_def Let_def length_v3_directionTo
              walkFrame_currentState)
    next
      case False
      with ns nw ready have r: "clipReady this ''idle''" by (simp add: precedence_main_def)
      have i: "currentState (setState this ''idle'') = ''idle''"
        using r by (simp add: setState_currentState)
      show ?thesis
      proof (cases "\<exists>t m. targetPosition this = Some t \<and> model this = Some m")
        case True
        then obtain t m where tm: "targetPosition this = Some t" "model this = Some m" by auto
        with False have near: "\<not> 2 / 10 < planarDistance t (position m)"
          by (simp add: midWalk_def)
        show ?thesis using ns nw False tm near r
          by (simp add: stateMachine_main_def precedence_main_def Let_def length_v3_directionTo
                arrive_main_currentState)
      next
        case no: False
        then have "(case (targetPosition this, model this) of
                     (Some target, Some m) \<Rightarrow> f target m | _ \<Rightarrow> g) = g"
          for f :: "vec3 \<Rightarrow> model3d \<Rightarrow> engineer" and g :: engineer
          by (auto split: option.splits)
        then show ?thesis using ns nw False i
          by (simp add: stateMachine_main_def precedence_main_def setState_same
                del: not_None_eq)
      qed
    qed
  qed
qed

lemma midWalk_mixerUpdate [simp]: "midWalk th (mixerUpdate d this) = midWalk th this"
  by (simp add: midWalk_def)

lemma update_main_precedence:
  assumes "clipReady this
       (precedence_main (isWorking this) (isSpeaking this) (midWalk (2 / 10) this))"
  shows "currentState (update_main w i d this) =
       precedence_main (isWorking this) (isSpeaking this) (midWalk (2 / 10) this)"
  using stateMachine_main_precedence [of "mixerUpdate d this" w i] assms
  by (simp add: update_main_def)

lemma handleMovement_flags_no_callback:
  "onArrivalCallback this = None \<Longrightarrow>
     isWorking (handleMovement w i this) = isWorking this \<and>
     isSpeaking (handleMovement w i this) = isSpeaking this"
  by (simp add: handleMovement_def Let_def arrive_flags_no_callback split: option.splits)

lemma update_flags_no_callback:
  "onArrivalCallback this = None \<Longrightarrow>
     isWorking (update w i d this) = isWorking this \<and>
     isSpeaking (update w i d this) = isSpeaking this"
  using handleMovement_flags_no_callback [of "mixerUpdate d this" w i]
  by (simp add: update_def)

section \<open>Arrival and the continuation\<close>

lemma handleMovement_no_callback:
  "onArrivalCallback this = None \<Longrightarrow>
     onArrivalCallback (handleMovement w i this) = None \<and>
     arrivalLog (handleMovement w i this) = arrivalLog this"
  by (simp add: handleMovement_def Let_def split: option.splits)

lemma update_no_callback:
  "onArrivalCallback this = None \<Longrightarrow>
     onArrivalCallback (update w i d this) = None \<and>
     arrivalLog (update w i d this) = arrivalLog this"
  using handleMovement_no_callback [of "mixerUpdate d this" w i]
  by (simp add: update_def)

lemma applyEvent_no_callback:
  "onArrivalCallback this = None \<Longrightarrow>
     onArrivalCallback (applyEvent i ev this) = None \<and>
     arrivalLog (applyEvent i ev this) = arrivalLog this"
  by (cases ev)
    (simp_all add: update_no_callback speak_def showDialogue_def speakTimeout_def
       workTimeout_def moveTo_def Let_def)

lemma applyEvents_no_callback:
  "onArrivalCallback this = None \<Longrightarrow> arrivalLog (applyEvents i evs this) = arrivalLog this"
proof (induction evs arbitrary: this)
  case Nil
  then show ?case by simp
next
  case (Cons ev evs)
  from applyEvent_no_callback [OF Cons.prems, of i ev]
  have c: "onArrivalCallback (applyEvent i ev this) = None"
    and l: "arrivalLog (applyEvent i ev this) = arrivalLog this" by simp_all
  from c have "arrivalLog (applyEvents i evs (applyEvent i ev this)) =
               arrivalLog (applyEvent i ev this)"
    by (rule Cons.IH)
  then show ?case by (simp add: l)
qed

lemma update_arrival:
  assumes "model this = Some m" "targetPosition this = Some t" "\<not> isWorking this"
    and "planarDistance t (position m) \<le> 1 / 2"
  shows "targetPosition (update w i d this) = None"
    and "onArrivalCallback (update w i d this) = None"
    and "arrivalLog (update w i d this) =
           arrivalLog this @ (case onArrivalCallback this of None \<Rightarrow> [] | Some cb \<Rightarrow> [cb])"
  using assms
  by (simp_all add: update_def handleMovement_def Let_def length_v3_directionTo)

lemma update_main_arrival:
  assumes "model this = Some m" "targetPosition this = Some t" "\<not> isWorking this"
    and "\<not> isSpeaking this" "planarDistance t (position m) \<le> 2 / 10"
  shows "targetPosition (update_main w i d this) = None"
  using assms
  by (simp add: update_main_def stateMachine_main_def Let_def length_v3_directionTo)

lemma update_main_log:
  "arrivalLog (update_main w i d this) = arrivalLog this"
  by (simp add: update_main_def stateMachine_main_def Let_def split: option.splits)

section \<open>Rounding to doubles, evaluated\<close>

lemma pow2_powr: "pow2 e = 2 powr of_int e"
proof (cases "0 \<le> e")
  case True
  then have "2 powr of_int e = (2::real) powr real (nat e)" by simp
  also have "\<dots> = 2 ^ nat e" by (simp only: powr_realpow zero_less_numeral)
  finally show ?thesis using True by (simp add: pow2_def)
next
  case False
  then have "2 powr of_int e = (2::real) powr (- real (nat (- e)))" by simp
  also have "\<dots> = 1 / 2 powr real (nat (- e))" by (simp add: powr_minus field_simps)
  also have "\<dots> = 1 / 2 ^ nat (- e)" by (simp only: powr_realpow zero_less_numeral)
  finally show ?thesis using False by (simp add: pow2_def)
qed

lemma fl_binade:
  assumes "pow2 e \<le> \<bar>x\<bar>" and "\<bar>x\<bar> < pow2 (e + 1)"
  shows "fl x = pow2 (e - 52) * of_int (roundEven (x / pow2 (e - 52)))"
proof -
  have p: "0 < pow2 e" by (simp add: pow2_powr)
  with assms(1) have x: "x \<noteq> 0" by auto
  have "\<lfloor>log 2 \<bar>x\<bar>\<rfloor> = e"
    using assms x by (subst floor_log_eq_powr_iff) (simp_all add: pow2_powr)
  with x show ?thesis by (simp add: fl_def Let_def)
qed

lemma fl_0 [simp]: "fl 0 = 0"
  by (simp add: fl_def)

lemma fl_small_values [simp]:
  "fl 1 = 1" "fl 2 = 2" "fl 4 = 4" "fl (1 / 2) = 1 / 2"
     apply (subst fl_binade [where e = 0], simp_all add: pow2_def roundEven_def)
    apply (subst fl_binade [where e = 1], simp_all add: pow2_def roundEven_def)
   apply (subst fl_binade [where e = 2], simp_all add: pow2_def roundEven_def)
  apply (subst fl_binade [where e = "- 1"], simp_all add: pow2_def roundEven_def)
  done




lemma sub_rounded:
  "fl (2 - 3602879701896397 / 72057594037927936) = 8782019273372467 / 4503599627370496"
  by (subst fl_binade [where e = 0]) (simp_all add: pow2_def roundEven_def)





















lemma mike_step:
  "stepPosition room 0 (Vector3 (- 3) 0 0)
     (normalize_v3 (directionTo (Vector3 (- 1) 0 0) (Vector3 (- 3) 0 0)))
     (min (1 / 20) 2) = Vector3 (- (59 / 20)) 0 0"
  "stepPosition_main room_main 0 (Vector3 (- 3) 0 0)
     (normalize_v3 (directionTo (Vector3 (- 1) 0 0) (Vector3 (- 3) 0 0)))
     (min (1 / 20) 2) = Vector3 (- (59 / 20)) 0 0"
  by (simp_all add: stepPosition_def stepPosition_main_def collision_eval scene_defs
        geometry_defs Let_def del: equipmentLoop.simps(2) engineersLoop.simps(2))


section \<open>Claims\<close>

text \<open>
  C9. When the clip of the requested state is missing or has not loaded yet (or the
  state has no clip at all), \<open>setState\<close> returns the engineer as it was: no transition,
  \<open>currentState\<close> and \<open>currentAnimation\<close> keep their values, every action keeps playing
  or not as before. \<open>setState\<close> has no failing path. The function is the same in both
  scene files.
\<close>

theorem setState_missing_clip_is_noop:
  assumes "\<forall>animName. stateAnimationMap newState = Some animName \<longrightarrow>
             animations this animName = None"
  shows "setState this newState = this"
  using assms by (simp add: setState_def split: option.splits)

theorem setState_missing_clip_is_noop_witness:
  "stateAnimationMap ''walking'' = Some ''walking'' \<and>
   setState (mike\<lparr>animations := [''standing'' \<mapsto> play clip]\<rparr>) ''walking'' =
     mike\<lparr>animations := [''standing'' \<mapsto> play clip]\<rparr>"
  using setState_missing_clip_is_noop
          [of "''walking''" "mike\<lparr>animations := [''standing'' \<mapsto> play clip]\<rparr>"]
  by (simp add: stateAnimationMap_def)

text \<open>
  C6. While \<open>isWorking\<close> is set, a frame leaves the model (its position and yaw) and
  \<open>targetPosition\<close> as they were, in both scene files. Conversely the model changes in
  a frame only when the engineer is not working and has a target.
\<close>

theorem working_holds_position_and_target:
  "(isWorking this \<longrightarrow>
      model (update w i deltaTime this) = model this \<and>
      targetPosition (update w i deltaTime this) = targetPosition this \<and>
      model (update_main w i deltaTime this) = model this \<and>
      targetPosition (update_main w i deltaTime this) = targetPosition this) \<and>
   (model (update w i deltaTime this) \<noteq> model this \<longrightarrow>
      \<not> isWorking this \<and> targetPosition this \<noteq> None) \<and>
   (model (update_main w i deltaTime this) \<noteq> model this \<longrightarrow>
      \<not> isWorking this \<and> targetPosition this \<noteq> None)"
  using update_working [of this w i deltaTime] update_main_working [of this w i deltaTime]
    update_no_target [of this w i deltaTime] update_main_no_target [of this w i deltaTime]
  by blast

theorem working_holds_position_and_target_witness:
  "isWorking ((heading (Vector3 (- 3) 0 0) (Vector3 (- 1) 0 0))\<lparr>isWorking := True\<rparr>) \<and>
   model (update room 0 (1 / 60) ((heading (Vector3 (- 3) 0 0) (Vector3 (- 1) 0 0))\<lparr>isWorking := True\<rparr>)) =
     Some \<lparr>position = Vector3 (- 3) 0 0, rotationY = 0\<rparr> \<and>
   targetPosition (update room 0 (1 / 60) ((heading (Vector3 (- 3) 0 0) (Vector3 (- 1) 0 0))\<lparr>isWorking := True\<rparr>)) =
     Some (Vector3 (- 1) 0 0) \<and>
   model (update_main room_main 0 (1 / 60) ((heading (Vector3 (- 3) 0 0) (Vector3 (- 1) 0 0))\<lparr>isWorking := True\<rparr>)) =
     Some \<lparr>position = Vector3 (- 3) 0 0, rotationY = 0\<rparr> \<and>
   targetPosition (update_main room_main 0 (1 / 60) ((heading (Vector3 (- 3) 0 0) (Vector3 (- 1) 0 0))\<lparr>isWorking := True\<rparr>)) =
     Some (Vector3 (- 1) 0 0) \<and>
   model (update room 0 (1 / 60) (heading (Vector3 (- 3) 0 0) (Vector3 (- 1) 0 0))) \<noteq>
     model (heading (Vector3 (- 3) 0 0) (Vector3 (- 1) 0 0)) \<and>
   model (update_main room_main 0 (1 / 60) (heading (Vector3 (- 3) 0 0) (Vector3 (- 1) 0 0))) \<noteq>
     model (heading (Vector3 (- 3) 0 0) (Vector3 (- 1) 0 0)) \<and>
   \<not> isWorking (heading (Vector3 (- 3) 0 0) (Vector3 (- 1) 0 0)) \<and>
   targetPosition (heading (Vector3 (- 3) 0 0) (Vector3 (- 1) 0 0)) \<noteq> None"
  using working_holds_position_and_target
          [of "(heading (Vector3 (- 3) 0 0) (Vector3 (- 1) 0 0))\<lparr>isWorking := True\<rparr>" room 0 "1 / 60"]
        working_holds_position_and_target
          [of "heading (Vector3 (- 3) 0 0) (Vector3 (- 1) 0 0)" room 0 "1 / 60"]
        working_holds_position_and_target
          [of "(heading (Vector3 (- 3) 0 0) (Vector3 (- 1) 0 0))\<lparr>isWorking := True\<rparr>" room_main 0 "1 / 60"]
        working_holds_position_and_target
          [of "heading (Vector3 (- 3) 0 0) (Vector3 (- 1) 0 0)" room_main 0 "1 / 60"]
        mike_walks [of "1 / 60"] mike_walks_main [of "1 / 60"]
  by (simp add: heading_def standing_def Vector3_def)

text \<open>
  C8. The elapsed time of a frame reaches the animation mixer only: two frames from the
  same state with different \<open>deltaTime\<close> give the same model (position and yaw),
  indeed the same engineer up to the mixer's time, in both scene files. In a walking
  frame the model goes, whatever \<open>deltaTime\<close> is, to the position that the collision
  handling picks for the step length \<open>min speed distance\<close>; the direct candidate of that
  handling is the position moved by the unit direction times that length.
\<close>

theorem position_independent_of_deltaTime:
  "model (update w i d1 this) = model (update w i d2 this) \<and>
   (update w i d1 this)\<lparr>mixer := None\<rparr> = (update w i d2 this)\<lparr>mixer := None\<rparr> \<and>
   mixer (update w i d1 this) = map_option (\<lambda>t. t + d1) (mixer this) \<and>
   model (update_main w i d1 this) = model (update_main w i d2 this) \<and>
   (update_main w i d1 this)\<lparr>mixer := None\<rparr> = (update_main w i d2 this)\<lparr>mixer := None\<rparr> \<and>
   mixer (update_main w i d1 this) = map_option (\<lambda>t. t + d1) (mixer this) \<and>
   (model this = Some m \<and> targetPosition this = Some t \<and> \<not> isWorking this \<and>
    1 / 2 < planarDistance t (position m) \<longrightarrow>
      map_option position (model (update w i d1 this)) =
        Some (stepPosition w i (position m) (normalize_v3 (directionTo t (position m)))
                (min (speed this) (planarDistance t (position m))))) \<and>
   (model this = Some m \<and> targetPosition this = Some t \<and> \<not> isWorking this \<and>
    \<not> isSpeaking this \<and> 2 / 10 < planarDistance t (position m) \<longrightarrow>
      map_option position (model (update_main w i d1 this)) =
        Some (stepPosition_main w i (position m) (normalize_v3 (directionTo t (position m)))
                (min (speed this) (planarDistance t (position m))))) \<and>
   newPositionOf p direction moveDistance =
     Vector3 (vx p + vx direction * moveDistance) 0 (vz p + vz direction * moveDistance)"
proof (intro conjI impI)
  assume "model this = Some m \<and> targetPosition this = Some t \<and> \<not> isWorking this \<and>
    1 / 2 < planarDistance t (position m)"
  then show "map_option position (model (update w i d1 this)) =
        Some (stepPosition w i (position m) (normalize_v3 (directionTo t (position m)))
                (min (speed this) (planarDistance t (position m))))"
    using update_model_walk [of this m t w i d1] by simp
next
  assume "model this = Some m \<and> targetPosition this = Some t \<and> \<not> isWorking this \<and>
    \<not> isSpeaking this \<and> 2 / 10 < planarDistance t (position m)"
  then show "map_option position (model (update_main w i d1 this)) =
        Some (stepPosition_main w i (position m) (normalize_v3 (directionTo t (position m)))
                (min (speed this) (planarDistance t (position m))))"
    using update_main_model_walk [of this m t w i d1] by simp
next
  show "newPositionOf p direction moveDistance =
     Vector3 (vx p + vx direction * moveDistance) 0 (vz p + vz direction * moveDistance)"
    by (simp add: newPositionOf_def addScaledVector_def Vector3_def)
qed (simp_all add: update_withMixer update_main_withMixer, simp_all add: withMixer_def)

theorem position_independent_of_deltaTime_witness:
  "speed (heading (Vector3 (- 3) 0 0) (Vector3 (- 1) 0 0)) = 1 / 20 \<and>
   planarDistance (Vector3 (- 1) 0 0) (Vector3 (- 3) 0 0) = 2 \<and>
   map_option position
     (model (update room 0 (1 / 60) (heading (Vector3 (- 3) 0 0) (Vector3 (- 1) 0 0)))) =
     Some (Vector3 (- (59 / 20)) 0 0) \<and>
   map_option position
     (model (update room 0 (1 / 30) (heading (Vector3 (- 3) 0 0) (Vector3 (- 1) 0 0)))) =
     Some (Vector3 (- (59 / 20)) 0 0) \<and>
   mixer (update room 0 (1 / 60) (heading (Vector3 (- 3) 0 0) (Vector3 (- 1) 0 0))) =
     Some (1 / 60) \<and>
   mixer (update room 0 (1 / 30) (heading (Vector3 (- 3) 0 0) (Vector3 (- 1) 0 0))) =
     Some (1 / 30) \<and>
   map_option position
     (model (update_main room_main 0 (1 / 60) (heading (Vector3 (- 3) 0 0) (Vector3 (- 1) 0 0)))) =
     Some (Vector3 (- (59 / 20)) 0 0) \<and>
   map_option position
     (model (update_main room_main 0 (1 / 30) (heading (Vector3 (- 3) 0 0) (Vector3 (- 1) 0 0)))) =
     Some (Vector3 (- (59 / 20)) 0 0)"
proof -
  let ?e = "heading (Vector3 (- 3) 0 0) (Vector3 (- 1) 0 0)"
  let ?m = "\<lparr>position = Vector3 (- 3) 0 0, rotationY = 0\<rparr>"
  let ?t = "Vector3 (- 1) 0 0"
  have s: "speed ?e = 1 / 20" by (simp add: heading_def standing_def)
  have d: "planarDistance ?t (Vector3 (- 3) 0 0) = 2"
    by (simp add: planarDistance_def Vector3_def)
  have pm: "position ?m = Vector3 (- 3) 0 0" by simp
  have mx: "map_option (\<lambda>t. t + 1 / 60) (mixer ?e) = Some (1 / 60)"
      "map_option (\<lambda>t. t + 1 / 30) (mixer ?e) = Some (1 / 30)"
    by (simp_all add: heading_def standing_def)
  have h: "model ?e = Some ?m \<and> targetPosition ?e = Some ?t \<and> \<not> isWorking ?e \<and>
           1 / 2 < planarDistance ?t (position ?m)"
    by (simp add: d) (simp add: heading_def standing_def)
  have hm: "model ?e = Some ?m \<and> targetPosition ?e = Some ?t \<and> \<not> isWorking ?e \<and>
           \<not> isSpeaking ?e \<and> 2 / 10 < planarDistance ?t (position ?m)"
    by (simp add: d) (simp add: heading_def standing_def)
  note a60 = position_independent_of_deltaTime [of room 0 "1 / 60" ?e "1 / 30" ?m ?t]
  note a30 = position_independent_of_deltaTime [of room 0 "1 / 30" ?e "1 / 60" ?m ?t]
  note b60 = position_independent_of_deltaTime [of room_main 0 "1 / 60" ?e "1 / 30" ?m ?t]
  note b30 = position_independent_of_deltaTime [of room_main 0 "1 / 30" ?e "1 / 60" ?m ?t]
  have r1: "map_option position (model (update room 0 (1 / 60) ?e)) =
              Some (Vector3 (- (59 / 20)) 0 0)"
    using a60 [THEN conjunct2, THEN conjunct2, THEN conjunct2, THEN conjunct2, THEN conjunct2,
               THEN conjunct2, THEN conjunct1, THEN mp, OF h]
    by (simp only: pm s d mike_step)
  have r2: "map_option position (model (update room 0 (1 / 30) ?e)) =
              Some (Vector3 (- (59 / 20)) 0 0)"
    using a30 [THEN conjunct2, THEN conjunct2, THEN conjunct2, THEN conjunct2, THEN conjunct2,
               THEN conjunct2, THEN conjunct1, THEN mp, OF h]
    by (simp only: pm s d mike_step)
  have r3: "mixer (update room 0 (1 / 60) ?e) = Some (1 / 60)"
    using a60 [THEN conjunct2, THEN conjunct2, THEN conjunct1] by (simp only: mx)
  have r4: "mixer (update room 0 (1 / 30) ?e) = Some (1 / 30)"
    using a30 [THEN conjunct2, THEN conjunct2, THEN conjunct1] by (simp only: mx)
  have r5: "map_option position (model (update_main room_main 0 (1 / 60) ?e)) =
              Some (Vector3 (- (59 / 20)) 0 0)"
    using b60 [THEN conjunct2, THEN conjunct2, THEN conjunct2, THEN conjunct2, THEN conjunct2,
               THEN conjunct2, THEN conjunct2, THEN conjunct1, THEN mp, OF hm]
    by (simp only: pm s d mike_step)
  have r6: "map_option position (model (update_main room_main 0 (1 / 30) ?e)) =
              Some (Vector3 (- (59 / 20)) 0 0)"
    using b30 [THEN conjunct2, THEN conjunct2, THEN conjunct2, THEN conjunct2, THEN conjunct2,
               THEN conjunct2, THEN conjunct2, THEN conjunct1, THEN mp, OF hm]
    by (simp only: pm s d mike_step)
  show ?thesis
    by (intro conjI) (rule s d r1 r2 r3 r4 r5 r6)+
qed




text \<open>
  C2. For every object \<open>obj\<close> of \<open>collisionObjects\<close>: if the model is at planar distance
  at least \<open>engineerRadius + collisionRadius obj\<close> from it before a frame, it still is
  after the frame, in both scene files. A frame leaves the model where it is or moves
  it to a candidate that \<open>checkCollision\<close> found free.
\<close>

theorem collision_containment:
  assumes "obj \<in> set (collisionObjects w)"
    and "model this = Some m"
    and "engineerRadius + collisionRadius obj \<le> planarDistance (position m) (worldPosition obj)"
  shows "(\<exists>m'. model (update w i deltaTime this) = Some m' \<and>
            engineerRadius + collisionRadius obj \<le> planarDistance (position m') (worldPosition obj)) \<and>
         (\<exists>m'. model (update_main w i deltaTime this) = Some m' \<and>
            engineerRadius + collisionRadius obj \<le> planarDistance (position m') (worldPosition obj))"
proof
  from update_position_cases [OF assms(2), of w i deltaTime]
  obtain m' where m': "model (update w i deltaTime this) = Some m'"
    and c: "position m' = position m \<or> \<not> checkCollision w i (position m')" by blast
  from c have "engineerRadius + collisionRadius obj \<le> planarDistance (position m') (worldPosition obj)"
  proof
    assume "position m' = position m"
    then show ?thesis using assms(3) by simp
  next
    assume "\<not> checkCollision w i (position m')"
    then have "\<not> equipmentLoop (position m') (collisionObjects w)"
      by (simp add: checkCollision_def split: if_splits)
    then show ?thesis using assms(1) by (rule free_equipment)
  qed
  with m' show "\<exists>m'. model (update w i deltaTime this) = Some m' \<and>
            engineerRadius + collisionRadius obj \<le> planarDistance (position m') (worldPosition obj)"
    by blast
next
  from update_main_position_cases [OF assms(2), of w i deltaTime]
  obtain m' where m': "model (update_main w i deltaTime this) = Some m'"
    and c: "position m' = position m \<or> \<not> checkCollision_main w i (position m')" by blast
  from c have "engineerRadius + collisionRadius obj \<le> planarDistance (position m') (worldPosition obj)"
  proof
    assume "position m' = position m"
    then show ?thesis using assms(3) by simp
  next
    assume "\<not> checkCollision_main w i (position m')"
    then have "\<not> equipmentLoop (position m') (collisionObjects w)"
      by (simp add: checkCollision_main_def split: if_splits)
    then show ?thesis using assms(1) by (rule free_equipment)
  qed
  with m' show "\<exists>m'. model (update_main w i deltaTime this) = Some m' \<and>
            engineerRadius + collisionRadius obj \<le> planarDistance (position m') (worldPosition obj)"
    by blast
qed

theorem collision_containment_witness:
  "pump \<in> set (collisionObjects room) \<and>
   engineerRadius + collisionRadius pump = 2 \<and>
   planarDistance (Vector3 (- 3) 0 5) (worldPosition pump) = 2 \<and>
   (\<exists>m'. model (update room 0 (1 / 60) (heading (Vector3 (- 3) 0 5) (Vector3 (- 7) 0 5))) = Some m' \<and>
      engineerRadius + collisionRadius pump \<le> planarDistance (position m') (worldPosition pump)) \<and>
   (\<exists>m'. model (update_main room_main 0 (1 / 60) (heading (Vector3 (- 3) 0 5) (Vector3 (- 7) 0 5))) = Some m' \<and>
      engineerRadius + collisionRadius pump \<le> planarDistance (position m') (worldPosition pump))"
proof -
  let ?e = "heading (Vector3 (- 3) 0 5) (Vector3 (- 7) 0 5)"
  let ?m = "\<lparr>position = Vector3 (- 3) 0 5, rotationY = 0\<rparr>"
  have a: "pump \<in> set (collisionObjects room)" by (simp add: room_def)
  have b: "model ?e = Some ?m" by (simp add: heading_def standing_def)
  have r: "engineerRadius + collisionRadius pump = 2"
    by (simp add: engineerRadius_def collisionRadius_def pump_def)
  have d: "planarDistance (Vector3 (- 3) 0 5) (worldPosition pump) = 2"
    by (simp add: planarDistance_def pump_def Vector3_def)
  have c: "engineerRadius + collisionRadius pump \<le> planarDistance (position ?m) (worldPosition pump)"
    by (simp add: r d)
  have a': "pump \<in> set (collisionObjects room_main)" by (simp add: room_main_def)
  from collision_containment [OF a b c, of 0 "1 / 60"]
  have r1: "\<exists>m'. model (update room 0 (1 / 60) ?e) = Some m' \<and>
      engineerRadius + collisionRadius pump \<le> planarDistance (position m') (worldPosition pump)"
    by (rule conjunct1)
  from collision_containment [OF a' b c, of 0 "1 / 60"]
  have r2: "\<exists>m'. model (update_main room_main 0 (1 / 60) ?e) = Some m' \<and>
      engineerRadius + collisionRadius pump \<le> planarDistance (position m') (worldPosition pump)"
    by (rule conjunct2)
  show ?thesis by (intro conjI) (rule a r d r1 r2)+
qed

text \<open>
  C5 (as amended). In src/unnamed/part_000, \<open>checkCollision\<close> is true exactly when some
  object of \<open>collisionObjects\<close> is at planar distance below
  \<open>engineerRadius + collisionRadius\<close> (the radius being \<open>userData.radius || 1\<close>), or some
  other engineer whose model has loaded is at planar distance below twice
  \<open>engineerRadius\<close>. In src/main.js it is true exactly when some object is that close:
  other engineers are not looked at.
\<close>

theorem checkCollision_iff:
  "checkCollision w i p =
     ((\<exists>obj \<in> set (collisionObjects w).
         planarDistance p (worldPosition obj) < engineerRadius + collisionRadius obj) \<or>
      (\<exists>j < length (engineers w). j \<noteq> i \<and>
         (\<exists>m. model (engineers w ! j) = Some m \<and>
              planarDistance p (position m) < engineerRadius * 2))) \<and>
   checkCollision_main w i p =
     (\<exists>obj \<in> set (collisionObjects w).
         planarDistance p (worldPosition obj) < engineerRadius + collisionRadius obj)"
  by (simp add: checkCollision_def checkCollision_main_def equipmentLoop_iff engineersLoop_iff)

theorem checkCollision_iff_witness:
  "model (engineers room ! 1) = Some \<lparr>position = Vector3 3 0 0, rotationY = 0\<rparr> \<and>
   planarDistance (Vector3 3 0 0) (Vector3 3 0 0) = 0 \<and>
   checkCollision room 0 (Vector3 3 0 0) \<and>
   \<not> checkCollision room 1 (Vector3 3 0 0)"
proof -
  have s: "model (engineers room ! 1) = Some \<lparr>position = Vector3 3 0 0, rotationY = 0\<rparr>"
    by (simp add: room_def sarah_def standing_def)
  have d: "planarDistance (Vector3 3 0 0) (Vector3 3 0 0) = 0"
    by (simp add: planarDistance_def)
  have "\<exists>j < length (engineers room). j \<noteq> 0 \<and>
         (\<exists>m. model (engineers room ! j) = Some m \<and>
              planarDistance (Vector3 3 0 0) (position m) < engineerRadius * 2)"
  proof (intro exI conjI)
    show "(1::nat) < length (engineers room)" by (simp add: room_def)
    show "(1::nat) \<noteq> 0" by simp
    show "model (engineers room ! 1) = Some \<lparr>position = Vector3 3 0 0, rotationY = 0\<rparr>"
      by (rule s)
    show "planarDistance (Vector3 3 0 0) (position \<lparr>position = Vector3 3 0 0, rotationY = 0\<rparr>)
            < engineerRadius * 2"
      by (simp add: d engineerRadius_def)
  qed
  then have yes: "checkCollision room 0 (Vector3 3 0 0)"
    using checkCollision_iff [of room 0 "Vector3 3 0 0"] by (simp only: simp_thms)
  have no: "\<not> checkCollision room 1 (Vector3 3 0 0)"
    by (simp add: collision_eval scene_defs geometry_defs
         del: equipmentLoop.simps(2) engineersLoop.simps(2))
  show ?thesis by (intro conjI) (rule s d yes no)+
qed

text \<open>
  C5 as stated fails on src/main.js: Sarah stands at (3, 0, 0), and for Mike that very
  point is not blocked.
\<close>

theorem checkCollision_main_ignores_engineers:
  "model (engineers room_main ! 1) = Some \<lparr>position = Vector3 3 0 0, rotationY = 0\<rparr> \<and>
   planarDistance (Vector3 3 0 0) (Vector3 3 0 0) < engineerRadius * 2 \<and>
   \<not> checkCollision_main room_main 0 (Vector3 3 0 0)"
proof -
  have s: "model (engineers room_main ! 1) = Some \<lparr>position = Vector3 3 0 0, rotationY = 0\<rparr>"
    by (simp add: room_main_def sarah_def standing_def)
  have d: "planarDistance (Vector3 3 0 0) (Vector3 3 0 0) < engineerRadius * 2"
    by (simp add: planarDistance_def engineerRadius_def)
  have no: "\<not> checkCollision_main room_main 0 (Vector3 3 0 0)"
    by (simp add: collision_eval scene_defs geometry_defs
         del: equipmentLoop.simps(2) engineersLoop.simps(2))
  show ?thesis by (intro conjI) (rule s d no)+
qed

text \<open>
  C4 (as amended). In a walking frame of src/unnamed/part_000 the model goes to the
  direct candidate if that is not blocked, else to the first side candidate, else to the
  second, else it stays; the side candidates are the direct displacement turned by a
  quarter turn either way in the XZ-plane, so of the same length. In a walking frame of
  src/main.js the model goes to the direct candidate if that is not blocked and stays
  otherwise.
\<close>

theorem stepAround_resolution:
  assumes "model this = Some m" and "targetPosition this = Some t" and "\<not> isWorking this"
  shows
   "(1 / 2 < planarDistance t (position m) \<longrightarrow>
       map_option position (model (update w i deltaTime this)) =
         Some (if \<not> checkCollision w i (directCandidate this m t) then directCandidate this m t
               else if \<not> checkCollision w i (sideCandidate1 this m t) then sideCandidate1 this m t
               else if \<not> checkCollision w i (sideCandidate2 this m t) then sideCandidate2 this m t
               else position m)) \<and>
    (\<not> isSpeaking this \<and> 2 / 10 < planarDistance t (position m) \<longrightarrow>
       map_option position (model (update_main w i deltaTime this)) =
         Some (if \<not> checkCollision_main w i (directCandidate this m t)
               then directCandidate this m t else position m)) \<and>
    vx (sideCandidate1 this m t) - vx (position m) =
      - (vz (directCandidate this m t) - vz (position m)) \<and>
    vz (sideCandidate1 this m t) - vz (position m) =
      vx (directCandidate this m t) - vx (position m) \<and>
    vx (sideCandidate2 this m t) - vx (position m) =
      vz (directCandidate this m t) - vz (position m) \<and>
    vz (sideCandidate2 this m t) - vz (position m) =
      - (vx (directCandidate this m t) - vx (position m)) \<and>
    planarDistance (sideCandidate1 this m t) (position m) =
      planarDistance (directCandidate this m t) (position m) \<and>
    planarDistance (sideCandidate2 this m t) (position m) =
      planarDistance (directCandidate this m t) (position m)"
proof (intro conjI impI)
  assume "1 / 2 < planarDistance t (position m)"
  then show "map_option position (model (update w i deltaTime this)) =
         Some (if \<not> checkCollision w i (directCandidate this m t) then directCandidate this m t
               else if \<not> checkCollision w i (sideCandidate1 this m t) then sideCandidate1 this m t
               else if \<not> checkCollision w i (sideCandidate2 this m t) then sideCandidate2 this m t
               else position m)"
    using update_model_walk [OF assms, of w i deltaTime]
    by (simp only: stepPosition_candidates) simp
next
  assume "\<not> isSpeaking this \<and> 2 / 10 < planarDistance t (position m)"
  then show "map_option position (model (update_main w i deltaTime this)) =
         Some (if \<not> checkCollision_main w i (directCandidate this m t)
               then directCandidate this m t else position m)"
    using update_main_model_walk [OF assms, of w i deltaTime]
    by (simp only: stepPosition_main_candidates) simp
qed (rule side_candidates_rotated side_candidates_length)+

theorem stepAround_resolution_witness:
  "checkCollision room 0 (Vector3 (- (61 / 20)) 0 5) \<and>
   \<not> checkCollision room 0 (Vector3 (- 3) 0 (99 / 20)) \<and>
   map_option position
     (model (update room 0 (1 / 60) (heading (Vector3 (- 3) 0 5) (Vector3 (- 7) 0 5)))) =
     Some (Vector3 (- 3) 0 (99 / 20)) \<and>
   checkCollision_main room_main 0 (Vector3 (- (61 / 20)) 0 5) \<and>
   map_option position
     (model (update_main room_main 0 (1 / 60) (heading (Vector3 (- 3) 0 5) (Vector3 (- 7) 0 5)))) =
     Some (Vector3 (- 3) 0 5)"
proof -
  let ?e = "heading (Vector3 (- 3) 0 5) (Vector3 (- 7) 0 5)"
  let ?m = "\<lparr>position = Vector3 (- 3) 0 5, rotationY = 0\<rparr>"
  let ?t = "Vector3 (- 7) 0 5"
  have h: "model ?e = Some ?m" "targetPosition ?e = Some ?t" "\<not> isWorking ?e"
    by (simp_all add: heading_def standing_def)
  have d: "planarDistance ?t (Vector3 (- 3) 0 5) = 4"
    by (simp add: planarDistance_def Vector3_def)
  have far: "1 / 2 < planarDistance ?t (position ?m)"
    by (simp add: d)
  have far_main: "\<not> isSpeaking ?e \<and> 2 / 10 < planarDistance ?t (position ?m)"
    by (simp add: d) (simp add: heading_def standing_def)
  from stepAround_resolution [OF h, of room 0 "1 / 60"]
  have "map_option position (model (update room 0 (1 / 60) ?e)) =
         Some (if \<not> checkCollision room 0 (directCandidate ?e ?m ?t) then directCandidate ?e ?m ?t
               else if \<not> checkCollision room 0 (sideCandidate1 ?e ?m ?t) then sideCandidate1 ?e ?m ?t
               else if \<not> checkCollision room 0 (sideCandidate2 ?e ?m ?t) then sideCandidate2 ?e ?m ?t
               else position ?m)"
    using far by (rule conjunct1 [THEN mp])
  then have r1: "map_option position (model (update room 0 (1 / 60) ?e)) =
                   Some (Vector3 (- 3) 0 (99 / 20))"
    by (simp only: pump_candidates pump_blocked simp_thms if_True if_False)
  from stepAround_resolution [OF h, of room_main 0 "1 / 60"]
  have "map_option position (model (update_main room_main 0 (1 / 60) ?e)) =
         Some (if \<not> checkCollision_main room_main 0 (directCandidate ?e ?m ?t)
               then directCandidate ?e ?m ?t else position ?m)"
    using far_main by (rule conjunct2 [THEN conjunct1, THEN mp])
  then have r2: "map_option position (model (update_main room_main 0 (1 / 60) ?e)) =
                   Some (Vector3 (- 3) 0 5)"
    by (simp only: pump_candidates pump_blocked simp_thms if_True if_False) simp
  show ?thesis
    by (intro conjI) (rule pump_blocked r1 r2)+
qed

text \<open>
  C4 as stated fails on src/main.js: at the pump the direct candidate is blocked and
  the first side candidate is free, yet the frame leaves the engineer where he is.
\<close>

theorem update_main_tries_no_side_step:
  "checkCollision_main room_main 0
     (directCandidate (heading (Vector3 (- 3) 0 5) (Vector3 (- 7) 0 5))
        \<lparr>position = Vector3 (- 3) 0 5, rotationY = 0\<rparr> (Vector3 (- 7) 0 5)) \<and>
   \<not> checkCollision_main room_main 0
     (sideCandidate1 (heading (Vector3 (- 3) 0 5) (Vector3 (- 7) 0 5))
        \<lparr>position = Vector3 (- 3) 0 5, rotationY = 0\<rparr> (Vector3 (- 7) 0 5)) \<and>
   model (heading (Vector3 (- 3) 0 5) (Vector3 (- 7) 0 5)) =
     Some \<lparr>position = Vector3 (- 3) 0 5, rotationY = 0\<rparr> \<and>
   targetPosition (heading (Vector3 (- 3) 0 5) (Vector3 (- 7) 0 5)) = Some (Vector3 (- 7) 0 5) \<and>
   map_option position
     (model (update_main room_main 0 (1 / 60) (heading (Vector3 (- 3) 0 5) (Vector3 (- 7) 0 5)))) =
     Some (Vector3 (- 3) 0 5)"
proof -
  let ?e = "heading (Vector3 (- 3) 0 5) (Vector3 (- 7) 0 5)"
  have h: "model ?e = Some \<lparr>position = Vector3 (- 3) 0 5, rotationY = 0\<rparr>"
      "targetPosition ?e = Some (Vector3 (- 7) 0 5)"
    by (simp_all add: heading_def standing_def)
  have a: "checkCollision_main room_main 0
     (directCandidate ?e \<lparr>position = Vector3 (- 3) 0 5, rotationY = 0\<rparr> (Vector3 (- 7) 0 5))"
    by (simp only: pump_candidates pump_blocked)
  have b: "\<not> checkCollision_main room_main 0
     (sideCandidate1 ?e \<lparr>position = Vector3 (- 3) 0 5, rotationY = 0\<rparr> (Vector3 (- 7) 0 5))"
    by (simp only: pump_candidates pump_blocked simp_thms)
  show ?thesis
    by (intro conjI) (rule a b h pump_wait_main)+
qed




text \<open>
  C1 (as amended). Provided the model has loaded and \<open>setState\<close> can enter the state
  named below (the engineer is in it already or its clip has loaded), the state after a
  frame of src/unnamed/part_000 is: Working if \<open>isWorking\<close>; else Talking if
  \<open>isSpeaking\<close> and the engineer is not mid-walk; else Walking if mid-walk (a target
  farther than 0.5 at the start of the frame); else Idle. The two flags are the values
  that the state block reads, which are the values at the start of the frame unless an
  arrival continuation has run in the frame. In src/main.js the order is Talking, then
  Working, then Walking (a target farther than 0.2), then Idle, under the same proviso
  on the clip.
\<close>

theorem state_precedence:
  "(model this \<noteq> None \<and>
    clipReady this
      (precedence (isWorking (update w i deltaTime this)) (isSpeaking (update w i deltaTime this))
         (midWalk (1 / 2) this)) \<longrightarrow>
      currentState (update w i deltaTime this) =
        precedence (isWorking (update w i deltaTime this))
          (isSpeaking (update w i deltaTime this)) (midWalk (1 / 2) this)) \<and>
   (onArrivalCallback this = None \<longrightarrow>
      isWorking (update w i deltaTime this) = isWorking this \<and>
      isSpeaking (update w i deltaTime this) = isSpeaking this) \<and>
   (clipReady this
      (precedence_main (isWorking this) (isSpeaking this) (midWalk (2 / 10) this)) \<longrightarrow>
      currentState (update_main w i deltaTime this) =
        precedence_main (isWorking this) (isSpeaking this) (midWalk (2 / 10) this))"
proof (intro conjI impI)
  assume "model this \<noteq> None \<and>
    clipReady this
      (precedence (isWorking (update w i deltaTime this)) (isSpeaking (update w i deltaTime this))
         (midWalk (1 / 2) this))"
  then show "currentState (update w i deltaTime this) =
        precedence (isWorking (update w i deltaTime this))
          (isSpeaking (update w i deltaTime this)) (midWalk (1 / 2) this)"
    using update_precedence [of this w i deltaTime] by (elim conjE)
next
  assume "onArrivalCallback this = None"
  then show "isWorking (update w i deltaTime this) = isWorking this"
    and "isSpeaking (update w i deltaTime this) = isSpeaking this"
    using update_flags_no_callback [of this w i deltaTime] by simp_all
next
  assume "clipReady this
      (precedence_main (isWorking this) (isSpeaking this) (midWalk (2 / 10) this))"
  then show "currentState (update_main w i deltaTime this) =
        precedence_main (isWorking this) (isSpeaking this) (midWalk (2 / 10) this)"
    by (rule update_main_precedence)
qed

theorem state_precedence_witness:
  "model (mike\<lparr>isSpeaking := True, isWorking := True\<rparr>) \<noteq> None \<and>
   onArrivalCallback (mike\<lparr>isSpeaking := True, isWorking := True\<rparr>) = None \<and>
   clipReady (mike\<lparr>isSpeaking := True, isWorking := True\<rparr>) ''working'' \<and>
   clipReady (mike\<lparr>isSpeaking := True, isWorking := True\<rparr>) ''talking'' \<and>
   isWorking (update room 0 (1 / 60) (mike\<lparr>isSpeaking := True, isWorking := True\<rparr>)) \<and>
   isSpeaking (update room 0 (1 / 60) (mike\<lparr>isSpeaking := True, isWorking := True\<rparr>)) \<and>
   currentState (update room 0 (1 / 60) (mike\<lparr>isSpeaking := True, isWorking := True\<rparr>)) =
     ''working'' \<and>
   currentState (update_main room_main 0 (1 / 60) (mike\<lparr>isSpeaking := True, isWorking := True\<rparr>)) =
     ''talking''"
proof -
  let ?e = "mike\<lparr>isSpeaking := True, isWorking := True\<rparr>"
  have m: "model ?e \<noteq> None" by (simp add: mike_def standing_def)
  have cb: "onArrivalCallback ?e = None" by (simp add: mike_def standing_def)
  have rw: "clipReady ?e ''working''"
    by (simp add: clipReady_def stateAnimationMap_def mike_def standing_def)
  have rt: "clipReady ?e ''talking''"
    by (simp add: clipReady_def stateAnimationMap_def mike_def standing_def)
  have f0: "isWorking ?e" "isSpeaking ?e" by simp_all
  from state_precedence [of ?e room 0 "1 / 60", THEN conjunct2, THEN conjunct1, THEN mp, OF cb]
  have f: "isWorking (update room 0 (1 / 60) ?e)" "isSpeaking (update room 0 (1 / 60) ?e)"
    using f0 by simp_all
  have p: "precedence (isWorking (update room 0 (1 / 60) ?e))
             (isSpeaking (update room 0 (1 / 60) ?e)) (midWalk (1 / 2) ?e) = ''working''"
    using f by (simp add: precedence_def)
  have pm: "precedence_main (isWorking ?e) (isSpeaking ?e) (midWalk (2 / 10) ?e) = ''talking''"
    by (simp add: precedence_main_def)
  have h: "model ?e \<noteq> None \<and>
    clipReady ?e (precedence (isWorking (update room 0 (1 / 60) ?e))
             (isSpeaking (update room 0 (1 / 60) ?e)) (midWalk (1 / 2) ?e))"
    using m rw by (simp only: p simp_thms)
  from state_precedence [of ?e room 0 "1 / 60", THEN conjunct1, THEN mp, OF h]
  have r1: "currentState (update room 0 (1 / 60) ?e) = ''working''"
    by (simp only: p)
  have hm: "clipReady ?e (precedence_main (isWorking ?e) (isSpeaking ?e) (midWalk (2 / 10) ?e))"
    using rt by (simp only: pm)
  from state_precedence [of ?e room_main 0 "1 / 60", THEN conjunct2, THEN conjunct2, THEN mp, OF hm]
  have r2: "currentState (update_main room_main 0 (1 / 60) ?e) = ''talking''"
    by (simp only: pm)
  show ?thesis
    by (intro conjI) (rule m cb rw rt f r1 r2)+
qed

text \<open>
  C1 as stated fails twice. In src/unnamed/part_000, an engineer whose model and first
  three clips have loaded, but not yet Working.fbx, stays Idle in a frame with
  \<open>isWorking\<close> set. In src/main.js, with all clips loaded and both flags set, the frame
  ends in Talking.
\<close>

theorem working_flag_without_working_state:
  "isWorking (mike\<lparr>animations := [''standing'' \<mapsto> play clip, ''walking'' \<mapsto> clip,
                                   ''talking'' \<mapsto> clip],
                   isWorking := True\<rparr>) \<and>
   currentState (update room 0 (1 / 60)
      (mike\<lparr>animations := [''standing'' \<mapsto> play clip, ''walking'' \<mapsto> clip,
                             ''talking'' \<mapsto> clip],
             isWorking := True\<rparr>)) = ''idle'' \<and>
   isWorking (mike\<lparr>isSpeaking := True, isWorking := True\<rparr>) \<and>
   currentState (update_main room_main 0 (1 / 60) (mike\<lparr>isSpeaking := True, isWorking := True\<rparr>)) =
     ''talking''"
proof -
  let ?e = "mike\<lparr>animations := [''standing'' \<mapsto> play clip, ''walking'' \<mapsto> clip,
                                  ''talking'' \<mapsto> clip],
                  isWorking := True\<rparr>"
  have a: "handleMovement room 0 (mixerUpdate (1 / 60) ?e) = mixerUpdate (1 / 60) ?e"
    by (simp add: handleMovement_working)
  have r1: "currentState (update room 0 (1 / 60) ?e) = ''idle''"
    unfolding update_def a
    by (simp add: stateManagement_def setState_def stateAnimationMap_def mike_def standing_def)
  have r2: "currentState (update_main room_main 0 (1 / 60)
              (mike\<lparr>isSpeaking := True, isWorking := True\<rparr>)) = ''talking''"
    by (simp add: update_main_def stateMachine_main_def setState_def stateAnimationMap_def
          mike_def standing_def Let_def)
  show ?thesis
    by (intro conjI) (simp, rule r1, simp, rule r2)
qed

text \<open>
  C3 (as amended). In src/unnamed/part_000, take an engineer with a loaded model and a
  target. If he is not working, a frame that starts with the target within 0.5 clears
  the target, calls the continuation (if one is set) once and clears it, and whatever
  follows (frames, calls of \<open>speak\<close>, the timers, a \<open>moveTo\<close> without continuation) calls
  no further continuation. If he is working, the frame keeps the target and the
  continuation and calls nothing. In src/main.js there is no continuation; the target
  is cleared in a frame that starts with the target within 0.2 and the engineer neither
  speaking nor working.
\<close>

theorem arrival_fires_once:
  assumes "model this = Some m" and "targetPosition this = Some t"
  shows
   "(\<not> isWorking this \<and> planarDistance t (position m) \<le> 1 / 2 \<longrightarrow>
       targetPosition (update w i deltaTime this) = None \<and>
       onArrivalCallback (update w i deltaTime this) = None \<and>
       arrivalLog (update w i deltaTime this) =
         arrivalLog this @ (case onArrivalCallback this of None \<Rightarrow> [] | Some cb \<Rightarrow> [cb]) \<and>
       (\<forall>evs. arrivalLog (applyEvents i evs (update w i deltaTime this)) =
               arrivalLog (update w i deltaTime this))) \<and>
    (isWorking this \<longrightarrow>
       targetPosition (update w i deltaTime this) = Some t \<and>
       onArrivalCallback (update w i deltaTime this) = onArrivalCallback this \<and>
       arrivalLog (update w i deltaTime this) = arrivalLog this) \<and>
    (\<not> isWorking this \<and> \<not> isSpeaking this \<and> planarDistance t (position m) \<le> 2 / 10 \<longrightarrow>
       targetPosition (update_main w i deltaTime this) = None) \<and>
    arrivalLog (update_main w i deltaTime this) = arrivalLog this"
proof (intro conjI impI allI)
  assume a: "\<not> isWorking this \<and> planarDistance t (position m) \<le> 1 / 2"
  then have nw: "\<not> isWorking this" and near: "planarDistance t (position m) \<le> 1 / 2"
    by simp_all
  show "targetPosition (update w i deltaTime this) = None"
    by (rule update_arrival(1) [OF assms nw near])
  show c: "onArrivalCallback (update w i deltaTime this) = None"
    by (rule update_arrival(2) [OF assms nw near])
  show "arrivalLog (update w i deltaTime this) =
         arrivalLog this @ (case onArrivalCallback this of None \<Rightarrow> [] | Some cb \<Rightarrow> [cb])"
    by (rule update_arrival(3) [OF assms nw near])
  show "arrivalLog (applyEvents i evs (update w i deltaTime this)) =
               arrivalLog (update w i deltaTime this)" for evs
    using c by (rule applyEvents_no_callback)
next
  assume w: "isWorking this"
  then have h: "handleMovement w i (mixerUpdate deltaTime this) = mixerUpdate deltaTime this"
    by (simp add: handleMovement_working)
  show "targetPosition (update w i deltaTime this) = Some t"
    using assms(2) by (simp add: update_def h)
  show "onArrivalCallback (update w i deltaTime this) = onArrivalCallback this"
    by (simp add: update_def h)
  show "arrivalLog (update w i deltaTime this) = arrivalLog this"
    by (simp add: update_def h)
next
  assume "\<not> isWorking this \<and> \<not> isSpeaking this \<and> planarDistance t (position m) \<le> 2 / 10"
  then show "targetPosition (update_main w i deltaTime this) = None"
    using update_main_arrival [OF assms, of w i deltaTime] by simp
next
  show "arrivalLog (update_main w i deltaTime this) = arrivalLog this"
    by (rule update_main_log)
qed

theorem arrival_fires_once_witness:
  "planarDistance (Vector3 (- 7) 0 5) (Vector3 (- (71 / 10)) 0 5) = 1 / 10 \<and>
   targetPosition (update room 0 (1 / 60) arriving) = None \<and>
   onArrivalCallback (update room 0 (1 / 60) arriving) = None \<and>
   arrivalLog (update room 0 (1 / 60) arriving) = [FixArrival ''pump1'' ''pump''] \<and>
   arrivalLog (applyEvents 0 [Frame room (1 / 60), WorkTimer, Frame room (1 / 60)]
                 (update room 0 (1 / 60) arriving)) = [FixArrival ''pump1'' ''pump''] \<and>
   targetPosition (update room 0 (1 / 60) (arriving\<lparr>isWorking := True\<rparr>)) =
     Some (Vector3 (- 7) 0 5) \<and>
   targetPosition (update_main room_main 0 (1 / 60) arriving) = None"
proof -
  let ?m = "\<lparr>position = Vector3 (- (71 / 10)) 0 5, rotationY = 0\<rparr>"
  let ?t = "Vector3 (- 7) 0 5"
  have h: "model arriving = Some ?m" "targetPosition arriving = Some ?t"
    by (simp_all add: arriving_def heading_def standing_def)
  have hw: "model (arriving\<lparr>isWorking := True\<rparr>) = Some ?m"
      "targetPosition (arriving\<lparr>isWorking := True\<rparr>) = Some ?t"
    by (simp_all add: arriving_def heading_def standing_def)
  have d: "planarDistance ?t (Vector3 (- (71 / 10)) 0 5) = 1 / 10"
    by (simp add: planarDistance_def Vector3_def)
  have near: "\<not> isWorking arriving \<and> planarDistance ?t (position ?m) \<le> 1 / 2"
    by (simp add: d) (simp add: arriving_def heading_def standing_def)
  have near_main: "\<not> isWorking arriving \<and> \<not> isSpeaking arriving \<and>
                   planarDistance ?t (position ?m) \<le> 2 / 10"
    by (simp add: d) (simp add: arriving_def heading_def standing_def)
  have l: "arrivalLog arriving @
             (case onArrivalCallback arriving of None \<Rightarrow> [] | Some cb \<Rightarrow> [cb]) =
           [FixArrival ''pump1'' ''pump'']"
    by (simp add: arriving_def heading_def standing_def)
  note c1 = arrival_fires_once [OF h, of room 0 "1 / 60", THEN conjunct1, THEN mp, OF near]
  have r1: "targetPosition (update room 0 (1 / 60) arriving) = None"
    by (rule c1 [THEN conjunct1])
  have r2: "onArrivalCallback (update room 0 (1 / 60) arriving) = None"
    by (rule c1 [THEN conjunct2, THEN conjunct1])
  have r3: "arrivalLog (update room 0 (1 / 60) arriving) = [FixArrival ''pump1'' ''pump'']"
    using c1 [THEN conjunct2, THEN conjunct2, THEN conjunct1] by (simp only: l)
  have r4: "arrivalLog (applyEvents 0 [Frame room (1 / 60), WorkTimer, Frame room (1 / 60)]
                 (update room 0 (1 / 60) arriving)) = [FixArrival ''pump1'' ''pump'']"
    using c1 [THEN conjunct2, THEN conjunct2, THEN conjunct2, THEN spec,
              of "[Frame room (1 / 60), WorkTimer, Frame room (1 / 60)]"]
    by (simp only: r3)
  have iw: "isWorking (arriving\<lparr>isWorking := True\<rparr>)" by simp
  have r5: "targetPosition (update room 0 (1 / 60) (arriving\<lparr>isWorking := True\<rparr>)) = Some ?t"
    by (rule arrival_fires_once [OF hw, of room 0 "1 / 60", THEN conjunct2, THEN conjunct1,
               THEN mp, OF iw, THEN conjunct1])
  have r6: "targetPosition (update_main room_main 0 (1 / 60) arriving) = None"
    by (rule arrival_fires_once [OF h, of room_main 0 "1 / 60", THEN conjunct2, THEN conjunct2,
               THEN conjunct1, THEN mp, OF near_main])
  show ?thesis
    by (intro conjI) (rule d r1 r2 r3 r4 r5 r6)+
qed

text \<open>
  C3 as stated fails twice. In src/unnamed/part_000 a working engineer whose target is
  within 0.5 keeps the target and the continuation through the frame. In src/main.js
  an engineer 0.3 from the target keeps the target and walks on: the threshold there
  is 0.2.
\<close>

theorem no_arrival_while_working:
  "isWorking (arriving\<lparr>isWorking := True\<rparr>) \<and>
   planarDistance (Vector3 (- 7) 0 5) (Vector3 (- (71 / 10)) 0 5) \<le> 1 / 2 \<and>
   targetPosition (update room 0 (1 / 60) (arriving\<lparr>isWorking := True\<rparr>)) =
     Some (Vector3 (- 7) 0 5) \<and>
   onArrivalCallback (update room 0 (1 / 60) (arriving\<lparr>isWorking := True\<rparr>)) =
     Some (FixArrival ''pump1'' ''pump'') \<and>
   arrivalLog (update room 0 (1 / 60) (arriving\<lparr>isWorking := True\<rparr>)) = [] \<and>
   planarDistance (Vector3 (- 7) 0 5) (Vector3 (- (73 / 10)) 0 5) \<le> 1 / 2 \<and>
   targetPosition (update_main room_main 0 (1 / 60)
      (heading (Vector3 (- (73 / 10)) 0 5) (Vector3 (- 7) 0 5))) = Some (Vector3 (- 7) 0 5)"
proof -
  let ?e = "arriving\<lparr>isWorking := True\<rparr>"
  have a: "handleMovement room 0 (mixerUpdate (1 / 60) ?e) = mixerUpdate (1 / 60) ?e"
    by (simp add: handleMovement_working)
  have r1: "targetPosition (update room 0 (1 / 60) ?e) = Some (Vector3 (- 7) 0 5)"
    unfolding update_def a by (simp add: arriving_def heading_def standing_def)
  have r2: "onArrivalCallback (update room 0 (1 / 60) ?e) = Some (FixArrival ''pump1'' ''pump'')"
    unfolding update_def a by (simp add: arriving_def heading_def standing_def)
  have r3: "arrivalLog (update room 0 (1 / 60) ?e) = []"
    unfolding update_def a by (simp add: arriving_def heading_def standing_def)
  have d1: "planarDistance (Vector3 (- 7) 0 5) (Vector3 (- (71 / 10)) 0 5) \<le> 1 / 2"
    by (simp add: planarDistance_def Vector3_def)
  have d2: "planarDistance (Vector3 (- 7) 0 5) (Vector3 (- (73 / 10)) 0 5) = 3 / 10"
    by (simp add: planarDistance_def Vector3_def)
  have d2': "planarDistance (Vector3 (- 7) 0 5) (Vector3 (- (73 / 10)) 0 5) \<le> 1 / 2"
    by (simp add: d2)
  have r4: "targetPosition (update_main room_main 0 (1 / 60)
      (heading (Vector3 (- (73 / 10)) 0 5) (Vector3 (- 7) 0 5))) = Some (Vector3 (- 7) 0 5)"
    by (simp add: update_main_def stateMachine_main_def Let_def length_v3_directionTo d2
          heading_def standing_def)
  have i: "isWorking ?e" by simp
  show ?thesis
    by (intro conjI) (rule i d1 r1 r2 r3 d2' r4)+
qed

end
